theory Spec2Isabelle
  imports Main "HOL-Library.Code_Target_Nat"
begin

section \<open>JavaScript strings\<close>

text \<open>
  A JavaScript string is a sequence of UTF-16 code units. It is modelled as the list of
  the code unit values, so that \<open>length\<close> is \<open>.length\<close>, and a character class of a
  regular expression without the \<open>u\<close> flag tests one code unit. ASCII literals of the
  source are written \<open>u ''...''\<close>; the glyphs of the report are spelled out below.
\<close>

type_synonym jstring = "nat list"

definition u :: "string \<Rightarrow> jstring" where
  "u s = map of_char s"

text \<open>Template literals and \<open>+\<close> on strings are \<open>@\<close>; \<open>cat\<close> joins the pieces of a template.\<close>

definition cat :: "jstring list \<Rightarrow> jstring" where
  "cat ps = concat ps"

text \<open>
  \<open>String(n)\<close> for an integer \<open>n\<close>: decimal digits, a minus sign when negative. The
  integers the program prints are lengths of arrays and differences of two readings of
  \<open>Date.now()\<close>, all below the \<open>10^21\<close> from which JavaScript prints an exponent.
\<close>

function show_nat :: "nat \<Rightarrow> jstring" where
  "show_nat n = (if n < 10 then [48 + n] else show_nat (n div 10) @ [48 + n mod 10])"
  by pat_completeness auto
termination
  by (relation "measure id") auto

declare show_nat.simps [simp del]

definition show_int :: "int \<Rightarrow> jstring" where
  "show_int i = (if i < 0 then 45 # show_nat (nat (- i)) else show_nat (nat i))"

text \<open>\<open>Array.prototype.join(sep)\<close>.\<close>

fun join :: "jstring \<Rightarrow> jstring list \<Rightarrow> jstring" where
  "join sep [] = []"
| "join sep [x] = x"
| "join sep (x # y # ys) = x @ sep @ join sep (y # ys)"

text \<open>\<open>s.split(c)\<close> for a separator \<open>c\<close> of one code unit: never the empty list.\<close>

fun split_chr :: "nat \<Rightarrow> jstring \<Rightarrow> jstring list" where
  "split_chr c [] = [[]]"
| "split_chr c (x # t) =
     (if x = c then [] # split_chr c t
      else (case split_chr c t of [] \<Rightarrow> [[x]] | p # ps \<Rightarrow> (x # p) # ps))"

text \<open>
  The code units that \<open>trim\<close> strips and \<open>\s\<close> matches: WhiteSpace and LineTerminator
  of ECMAScript.
\<close>

definition is_space :: "nat \<Rightarrow> bool" where
  "is_space c \<longleftrightarrow>
     c \<in> set [9, 10, 11, 12, 13, 32, 160, 5760, 8232, 8233, 8239, 8287, 12288, 65279]
     \<or> (8192 \<le> c \<and> c \<le> 8202)"

definition trim :: "jstring \<Rightarrow> jstring" where
  "trim s = rev (dropWhile is_space (rev (dropWhile is_space s)))"

definition startsWith :: "jstring \<Rightarrow> jstring \<Rightarrow> bool" where
  "startsWith s p \<longleftrightarrow> take (length p) s = p"

definition endsWith :: "jstring \<Rightarrow> jstring \<Rightarrow> bool" where
  "endsWith s p \<longleftrightarrow> startsWith (rev s) (rev p)"

fun includes_str :: "jstring \<Rightarrow> jstring \<Rightarrow> bool" where
  "includes_str [] p = (p = [])"
| "includes_str (x # t) p = (startsWith (x # t) p \<or> includes_str t p)"

text \<open>
  \<open>toUpperCase\<close> on the ASCII letters; the program only applies it to the overall status,
  one of pass, warning and fail.
\<close>

definition toUpperCase :: "jstring \<Rightarrow> jstring" where
  "toUpperCase s = map (\<lambda>c. if 97 \<le> c \<and> c \<le> 122 then c - 32 else c) s"

text \<open>Truthiness of an optional string: \<open>undefined\<close> and \<open>''\<close> are falsy.\<close>

fun truthy :: "jstring option \<Rightarrow> bool" where
  "truthy None = False"
| "truthy (Some s) = (s \<noteq> [])"

text \<open>\<open>Array.prototype.find\<close>.\<close>

definition find_first :: "('a \<Rightarrow> bool) \<Rightarrow> 'a list \<Rightarrow> 'a option" where
  "find_first P xs = List.find P xs"

section \<open>Paths\<close>

text \<open>
  \<open>path.join\<close>, \<open>path.normalize\<close> and \<open>path.basename\<close> of Node on POSIX.
  \<open>normalize_segments\<close> walks the segments between slashes with the segments kept so far
  (last first): empty segments and \<open>.\<close> are dropped, \<open>..\<close> removes the segment before it,
  and is kept only in a relative path that has nothing left to remove.
\<close>

fun normalize_segments :: "bool \<Rightarrow> jstring list \<Rightarrow> jstring list \<Rightarrow> jstring list" where
  "normalize_segments allowAboveRoot [] kept = rev kept"
| "normalize_segments allowAboveRoot (seg # rest) kept =
     (if seg = [] \<or> seg = u ''.'' then normalize_segments allowAboveRoot rest kept
      else if seg = u ''..'' then
        (case kept of
           [] \<Rightarrow> normalize_segments allowAboveRoot rest (if allowAboveRoot then [seg] else [])
         | prev # below \<Rightarrow>
             if prev = u ''..''
             then normalize_segments allowAboveRoot rest (if allowAboveRoot then seg # kept else kept)
             else normalize_segments allowAboveRoot rest below)
      else normalize_segments allowAboveRoot rest (seg # kept))"

definition normalize :: "jstring \<Rightarrow> jstring" where
  "normalize p =
     (if p = [] then u ''.''
      else
        (let isAbsolute = (hd p = 47);
             trailingSeparator = (last p = 47);
             body = join (u ''/'') (normalize_segments (\<not> isAbsolute) (split_chr 47 p) [])
         in if body = []
            then (if isAbsolute then u ''/'' else if trailingSeparator then u ''./'' else u ''.'')
            else (if isAbsolute then u ''/'' else [])
                 @ body
                 @ (if trailingSeparator then u ''/'' else [])))"

definition path_join :: "jstring list \<Rightarrow> jstring" where
  "path_join args =
     (case filter (\<lambda>arg. arg \<noteq> []) args of
        [] \<Rightarrow> u ''.''
      | a # as \<Rightarrow> normalize (join (u ''/'') (a # as)))"

definition basename :: "jstring \<Rightarrow> jstring" where
  "basename p =
     (case filter (\<lambda>seg. seg \<noteq> []) (split_chr 47 p) of
        [] \<Rightarrow> []
      | s # ss \<Rightarrow> last (s # ss))"

section \<open>Regular expressions\<close>

text \<open>
  The regular expressions of the source are terms of \<open>regex\<close>. Every quantifier of
  the source (\<open>*\<close>, \<open>+\<close>, \<open>?\<close>, \<open>{n}\<close>, \<open>{n,}\<close>, lazy or greedy) stands on a
  character class, so \<open>Star\<close> and \<open>Lazy\<close> take a class: \<open>c*\<close> and \<open>c*?\<close>.
\<close>

datatype regex =
    Cls "nat \<Rightarrow> bool"
  | Eps
  | Seq regex regex
  | Alt regex regex
  | Star "nat \<Rightarrow> bool"
  | Lazy "nat \<Rightarrow> bool"
  | Grp nat regex
  | Bos
  | Eos

text \<open>
  \<open>rx_run\<close> is the backtracking matcher of ECMAScript. It matches a stack of frames (what is
  left of the expression: the continuation) against the input \<open>s\<close> and returns the first
  way to succeed in backtracking order: the rest of the input and the captures. \<open>b\<close>
  tells whether \<open>s\<close> is the whole input (for \<open>^\<close>); a capture is the input where its
  group was entered and the input where it was left.
\<close>

datatype frame = R regex | Close nat jstring

type_synonym caps = "(nat \<times> jstring \<times> jstring) list"

fun weight :: "regex \<Rightarrow> nat" where
  "weight (Seq r1 r2) = weight r1 + weight r2 + 1"
| "weight (Alt r1 r2) = weight r1 + weight r2 + 1"
| "weight (Grp i r) = weight r + 2"
| "weight r = 1"

fun frame_weight :: "frame \<Rightarrow> nat" where
  "frame_weight (R r) = weight r"
| "frame_weight (Close i s) = 1"

function rx_run :: "frame list \<Rightarrow> jstring \<Rightarrow> bool \<Rightarrow> caps \<Rightarrow> (jstring \<times> caps) option" where
  "rx_run [] s b c = Some (s, c)"
| "rx_run (Close i s0 # k) s b c = rx_run k s b ((i, s0, s) # c)"
| "rx_run (R (Cls p) # k) [] b c = None"
| "rx_run (R (Cls p) # k) (x # t) b c = (if p x then rx_run k t False c else None)"
| "rx_run (R Eps # k) s b c = rx_run k s b c"
| "rx_run (R (Seq r1 r2) # k) s b c = rx_run (R r1 # R r2 # k) s b c"
| "rx_run (R (Alt r1 r2) # k) s b c =
     (let a = rx_run (R r1 # k) s b c in if a = None then rx_run (R r2 # k) s b c else a)"
| "rx_run (R (Star p) # k) [] b c = rx_run k [] b c"
| "rx_run (R (Star p) # k) (x # t) b c =
     (if p x
      then (let a = rx_run (R (Star p) # k) t False c in if a = None then rx_run k (x # t) b c else a)
      else rx_run k (x # t) b c)"
| "rx_run (R (Lazy p) # k) [] b c = rx_run k [] b c"
| "rx_run (R (Lazy p) # k) (x # t) b c =
     (let a = rx_run k (x # t) b c
      in if a = None then (if p x then rx_run (R (Lazy p) # k) t False c else None) else a)"
| "rx_run (R (Grp i r) # k) s b c = rx_run (R r # Close i s # k) s b c"
| "rx_run (R Bos # k) s b c = (if b then rx_run k s b c else None)"
| "rx_run (R Eos # k) s b c = (if s = [] then rx_run k s b c else None)"
  by pat_completeness auto
termination
  by (relation "measures [\<lambda>(k, s, b, c). length s,
                          \<lambda>(k, s, b, c). sum_list (map frame_weight k)]") auto

text \<open>
  A match: the input at its start, the input after it and the captures. \<open>exec_from\<close> is
  the search of \<open>RegExp.prototype.exec\<close> without the \<open>g\<close> flag: the leftmost start that
  matches, the end of the input included.
\<close>

record rmatch =
  m_start :: jstring
  m_end :: jstring
  m_caps :: caps

definition match_here :: "bool \<Rightarrow> regex \<Rightarrow> jstring \<Rightarrow> rmatch option" where
  "match_here b r s =
     (let a = rx_run [R r] s b []
      in if a = None then None
         else Some \<lparr>m_start = s, m_end = fst (the a), m_caps = snd (the a)\<rparr>)"

fun exec_from :: "bool \<Rightarrow> regex \<Rightarrow> jstring \<Rightarrow> rmatch option" where
  "exec_from b r [] = match_here b r []"
| "exec_from b r (x # t) =
     (let a = match_here b r (x # t) in if a = None then exec_from False r t else a)"

text \<open>\<open>s.match(r)\<close> (no \<open>g\<close> flag), \<open>r.test(s)\<close> and the groups \<open>m[0]\<close>, \<open>m[i]\<close>.\<close>

definition rx_match :: "jstring \<Rightarrow> regex \<Rightarrow> rmatch option" where
  "rx_match s r = exec_from True r s"

definition rx_test :: "regex \<Rightarrow> jstring \<Rightarrow> bool" where
  "rx_test r s \<longleftrightarrow> rx_match s r \<noteq> None"

definition between :: "jstring \<Rightarrow> jstring \<Rightarrow> jstring" where
  "between s0 s1 = take (length s0 - length s1) s0"

definition matched :: "rmatch \<Rightarrow> jstring" where
  "matched m = between (m_start m) (m_end m)"

definition rx_group :: "rmatch \<Rightarrow> nat \<Rightarrow> jstring option" where
  "rx_group m i = map_option (\<lambda>(s0, s1). between s0 s1) (map_of (m_caps m) i)"

text \<open>The notation of the source, as functions that build expressions.\<close>

definition rx_chr :: "nat \<Rightarrow> regex" where
  "rx_chr c = Cls (\<lambda>x. x = c)"

definition rx_lit :: "jstring \<Rightarrow> regex" where
  "rx_lit s = foldr (\<lambda>c r. Seq (rx_chr c) r) s Eps"

text \<open>
  Under the \<open>i\<close> flag (without \<open>u\<close>) an ASCII letter of the pattern matches its two ASCII
  cases only: a code unit above 127 is never mapped into ASCII.
\<close>

definition lower :: "nat \<Rightarrow> nat" where
  "lower c = (if 65 \<le> c \<and> c \<le> 90 then c + 32 else c)"

definition rx_chr_i :: "nat \<Rightarrow> regex" where
  "rx_chr_i c = Cls (\<lambda>x. lower x = lower c)"

definition rx_lit_i :: "jstring \<Rightarrow> regex" where
  "rx_lit_i s = foldr (\<lambda>c r. Seq (rx_chr_i c) r) s Eps"

definition rx_seqs :: "regex list \<Rightarrow> regex" where
  "rx_seqs rs = foldr Seq rs Eps"

fun rx_alts :: "regex list \<Rightarrow> regex" where
  "rx_alts [] = Cls (\<lambda>x. False)"
| "rx_alts [r] = r"
| "rx_alts (r # rs) = Alt r (rx_alts rs)"

text \<open>\<open>c+\<close>, \<open>c+?\<close>, \<open>c?\<close>, \<open>c{k}\<close> and \<open>c{k,}\<close> for a class \<open>c\<close>.\<close>

definition rx_plus :: "(nat \<Rightarrow> bool) \<Rightarrow> regex" where
  "rx_plus p = Seq (Cls p) (Star p)"

definition rx_lazy_plus :: "(nat \<Rightarrow> bool) \<Rightarrow> regex" where
  "rx_lazy_plus p = Seq (Cls p) (Lazy p)"

definition rx_opt :: "(nat \<Rightarrow> bool) \<Rightarrow> regex" where
  "rx_opt p = Alt (Cls p) Eps"

fun rx_rep :: "nat \<Rightarrow> (nat \<Rightarrow> bool) \<Rightarrow> regex" where
  "rx_rep 0 p = Eps"
| "rx_rep (Suc k) p = Seq (Cls p) (rx_rep k p)"

definition rx_rep_min :: "nat \<Rightarrow> (nat \<Rightarrow> bool) \<Rightarrow> regex" where
  "rx_rep_min k p = Seq (rx_rep k p) (Star p)"

definition is_digit :: "nat \<Rightarrow> bool" where
  "is_digit c \<longleftrightarrow> 48 \<le> c \<and> c \<le> 57"

definition is_alnum :: "nat \<Rightarrow> bool" where
  "is_alnum c \<longleftrightarrow> is_digit c \<or> (65 \<le> c \<and> c \<le> 90) \<or> (97 \<le> c \<and> c \<le> 122)"

text \<open>\<open>\w\<close>: letters, digits and the underscore.\<close>

definition is_word :: "nat \<Rightarrow> bool" where
  "is_word c \<longleftrightarrow> is_alnum c \<or> c = 95"

text \<open>\<open>.\<close> without the \<open>s\<close> flag: any code unit but a line terminator.\<close>

definition is_dot :: "nat \<Rightarrow> bool" where
  "is_dot c \<longleftrightarrow> c \<notin> set [10, 13, 8232, 8233]"

definition is_any :: "nat \<Rightarrow> bool" where
  "is_any c \<longleftrightarrow> True"

text \<open>
  \<open>s.split(r)\<close> for a regular expression without groups: \<open>acc\<close> is the piece being
  collected, from the end of the last separator to the position tried, in reverse; a match
  that ends where the piece starts is not a separator. \<open>b\<close> tells whether the position
  tried is the start of the input.
\<close>

function split_rx_from :: "bool \<Rightarrow> regex \<Rightarrow> jstring \<Rightarrow> jstring \<Rightarrow> jstring list" where
  "split_rx_from b r acc [] = [rev acc]"
| "split_rx_from b r acc (x # t) =
     (let a = match_here b r (x # t)
      in if a = None then split_rx_from False r (x # acc) t
         else if length (m_end (the a)) \<le> length t
           then rev acc # split_rx_from False r [] (m_end (the a))
         else if acc = [] then split_rx_from False r [x] t
         else rev acc # split_rx_from b r [] (x # t))"
  by pat_completeness auto
termination
  by (relation "measure (\<lambda>(b, r, acc, s). 2 * length s + (if acc = [] then 0 else 1))") auto

definition split_rx :: "jstring \<Rightarrow> regex \<Rightarrow> jstring list" where
  "split_rx s r =
     (if s = [] then (if match_here True r [] = None then [[]] else [])
      else split_rx_from True r [] s)"

section \<open>The data model of a run\<close>

text \<open>
  A thrown \<open>Error\<close>: its name and its message. The \<open>stack\<close> string that \<open>runCheck\<close>
  copies into an error result is an engine trace and is left out of the model.
\<close>

datatype js_error = JsError (e_name: jstring) (e_message: jstring)

record detail =
  d_status :: jstring
  d_message :: jstring

text \<open>
  What a check module returns: an object whose fields may be absent
  (\<open>undefined\<close> is \<open>None\<close>).
\<close>

record partial_result =
  p_status :: "jstring option"
  p_message :: "jstring option"
  p_details :: "detail list option"
  p_error :: "jstring option"
  p_fix :: "jstring list option"

record check_result =
  name :: jstring
  status :: jstring
  duration :: int
  message :: "jstring option"
  details :: "detail list option"
  error :: "jstring option"
  fix_list :: "jstring list option"

record counts =
  total_checks :: nat
  passed :: nat
  warnings :: nat
  failed :: nat
  errors :: nat
  overallStatus :: jstring

record summary = counts +
  timestamp :: jstring

section \<open>The check runner and the summary reducer (health-check.js)\<close>

text \<open>
  \<open>runCheck\<close>: \<open>t0\<close> and \<open>t1\<close> are the two readings of \<open>Date.now()\<close>, and \<open>outcome\<close>
  is what awaiting the check function gave: a thrown error or the object returned. The
  spread \<open>...result\<close> comes last, so a status the object carries wins over the default.
\<close>

definition runCheck :: "jstring \<Rightarrow> js_error + partial_result \<Rightarrow> int \<Rightarrow> int \<Rightarrow> check_result" where
  "runCheck checkName outcome t0 t1 =
     (case outcome of
        Inr result \<Rightarrow>
          \<lparr>name = checkName,
           status = (case p_status result of
                       Some s \<Rightarrow> s
                     | None \<Rightarrow> u ''unknown''),
           duration = t1 - t0,
           message = p_message result,
           details = p_details result,
           error = p_error result,
           fix_list = p_fix result\<rparr>
      | Inl err \<Rightarrow>
          \<lparr>name = checkName,
           status = u ''error'',
           duration = t1 - t0,
           message = None,
           details = None,
           error = Some (e_message err),
           fix_list = None\<rparr>)"

text \<open>
  The loop of \<open>main\<close> over the checks to run: a call is the name of the check, what its
  function gave and the two clock readings around it; one result is pushed per call.
\<close>

record call =
  c_check :: jstring
  c_outcome :: "js_error + partial_result"
  c_start :: int
  c_end :: int

definition runChecks :: "call list \<Rightarrow> check_result list" where
  "runChecks calls = map (\<lambda>c. runCheck (c_check c) (c_outcome c) (c_start c) (c_end c)) calls"

text \<open>\<open>generateSummary\<close>; \<open>now\<close> is \<open>new Date().toISOString()\<close>.\<close>

definition generateSummary :: "jstring \<Rightarrow> check_result list \<Rightarrow> summary" where
  "generateSummary now results =
     (let total = length results;
          passed = length (filter (\<lambda>r. status r = u ''pass'') results);
          warnings = length (filter (\<lambda>r. status r = u ''warning'') results);
          failed = length (filter (\<lambda>r. status r = u ''fail'') results);
          errors = length (filter (\<lambda>r. status r = u ''error'') results);
          overallStatus =
            (if errors > 0 \<or> failed > 0 then u ''fail''
             else if warnings > 0 then u ''warning''
             else u ''pass'')
      in \<lparr>total_checks = total, passed = passed, warnings = warnings, failed = failed,
          errors = errors, overallStatus = overallStatus, timestamp = now\<rparr>)"

section \<open>Properties of the summary reducer\<close>

lemma status_words_distinct:
  "u ''pass'' \<noteq> u ''warning''" "u ''pass'' \<noteq> u ''fail''" "u ''pass'' \<noteq> u ''error''"
  "u ''pass'' \<noteq> u ''unknown''" "u ''warning'' \<noteq> u ''fail''" "u ''warning'' \<noteq> u ''error''"
  "u ''warning'' \<noteq> u ''unknown''" "u ''fail'' \<noteq> u ''error''" "u ''fail'' \<noteq> u ''unknown''"
  "u ''error'' \<noteq> u ''unknown''"
  by (simp_all add: u_def)

lemma filter_nonempty_iff: "0 < length (filter P xs) \<longleftrightarrow> (\<exists>x \<in> set xs. P x)"
  by (simp add: filter_empty_conv)

text \<open>
  C1. For every list of results, \<open>generateSummary\<close> returns the length of the list as the
  total, the number of results of status pass, warning, fail and error as the four counts,
  and as overall status: fail when some result has status fail or error, otherwise warning
  when some result has status warning, otherwise pass.
\<close>

theorem generateSummary_counts_and_status:
  "total_checks (generateSummary now rs) = length rs
   \<and> passed (generateSummary now rs) = length (filter (\<lambda>r. status r = u ''pass'') rs)
   \<and> warnings (generateSummary now rs) = length (filter (\<lambda>r. status r = u ''warning'') rs)
   \<and> failed (generateSummary now rs) = length (filter (\<lambda>r. status r = u ''fail'') rs)
   \<and> errors (generateSummary now rs) = length (filter (\<lambda>r. status r = u ''error'') rs)
   \<and> overallStatus (generateSummary now rs) =
       (if \<exists>r \<in> set rs. status r = u ''fail'' \<or> status r = u ''error'' then u ''fail''
        else if \<exists>r \<in> set rs. status r = u ''warning'' then u ''warning''
        else u ''pass'')"
proof -
  have counts:
    "total_checks (generateSummary now rs) = length rs"
    "passed (generateSummary now rs) = length (filter (\<lambda>r. status r = u ''pass'') rs)"
    "warnings (generateSummary now rs) = length (filter (\<lambda>r. status r = u ''warning'') rs)"
    "failed (generateSummary now rs) = length (filter (\<lambda>r. status r = u ''fail'') rs)"
    "errors (generateSummary now rs) = length (filter (\<lambda>r. status r = u ''error'') rs)"
    by (simp_all add: generateSummary_def Let_def)
  have bad: "(0 < length (filter (\<lambda>r. status r = u ''error'') rs)
              \<or> 0 < length (filter (\<lambda>r. status r = u ''fail'') rs))
             \<longleftrightarrow> (\<exists>r \<in> set rs. status r = u ''fail'' \<or> status r = u ''error'')"
    unfolding filter_nonempty_iff by blast
  have warn: "0 < length (filter (\<lambda>r. status r = u ''warning'') rs)
              \<longleftrightarrow> (\<exists>r \<in> set rs. status r = u ''warning'')"
    by (rule filter_nonempty_iff)
  have overall: "overallStatus (generateSummary now rs) =
       (if \<exists>r \<in> set rs. status r = u ''fail'' \<or> status r = u ''error'' then u ''fail''
        else if \<exists>r \<in> set rs. status r = u ''warning'' then u ''warning''
        else u ''pass'')"
    unfolding bad [symmetric] warn [symmetric]
    by (simp add: generateSummary_def Let_def)
  from counts overall show ?thesis by blast
qed

theorem generateSummary_counts_and_status_witness:
  "total_checks (generateSummary [] [runCheck (u ''a'') (Inl (JsError [] [])) 0 1,
                                     runCheck (u ''b'') (Inr \<lparr>p_status = Some (u ''warning''),
                                        p_message = None, p_details = None, p_error = None,
                                        p_fix = None\<rparr>) 1 3]) = 2
   \<and> overallStatus (generateSummary [] [runCheck (u ''a'') (Inl (JsError [] [])) 0 1,
                                     runCheck (u ''b'') (Inr \<lparr>p_status = Some (u ''warning''),
                                        p_message = None, p_details = None, p_error = None,
                                        p_fix = None\<rparr>) 1 3]) = u ''fail''"
  using generateSummary_counts_and_status
          [of "[]" "[runCheck (u ''a'') (Inl (JsError [] [])) 0 1,
                    runCheck (u ''b'') (Inr \<lparr>p_status = Some (u ''warning''),
                       p_message = None, p_details = None, p_error = None,
                       p_fix = None\<rparr>) 1 3]"]
  by (simp add: runCheck_def)

lemma filter_status_skip:
  "status r \<noteq> w \<Longrightarrow>
   length (filter (\<lambda>x. status x = w) (xs @ r # ys)) = length (filter (\<lambda>x. status x = w) (xs @ ys))"
  by simp

lemma overallStatus_from_counts:
  "overallStatus (generateSummary now rs) =
     (if errors (generateSummary now rs) > 0 \<or> failed (generateSummary now rs) > 0 then u ''fail''
      else if warnings (generateSummary now rs) > 0 then u ''warning''
      else u ''pass'')"
  by (simp add: generateSummary_def Let_def)

lemma filter_none: "\<forall>x \<in> set xs. \<not> P x \<Longrightarrow> filter P xs = []"
  by (induction xs) auto

text \<open>
  C9. A result whose status is none of pass, warning, fail and error adds one to the total
  and leaves the four counts and the overall status as they are without it. A run of
  results that all have status unknown has overall status pass, and unknown is the status
  \<open>runCheck\<close> gives when the object returned carries no status.
\<close>

theorem unknown_status_counts_in_total_only:
  assumes other: "status r \<noteq> u ''pass''" "status r \<noteq> u ''warning''"
                 "status r \<noteq> u ''fail''" "status r \<noteq> u ''error''"
  shows "total_checks (generateSummary now (xs @ r # ys))
           = total_checks (generateSummary now (xs @ ys)) + 1
         \<and> passed (generateSummary now (xs @ r # ys)) = passed (generateSummary now (xs @ ys))
         \<and> warnings (generateSummary now (xs @ r # ys)) = warnings (generateSummary now (xs @ ys))
         \<and> failed (generateSummary now (xs @ r # ys)) = failed (generateSummary now (xs @ ys))
         \<and> errors (generateSummary now (xs @ r # ys)) = errors (generateSummary now (xs @ ys))
         \<and> overallStatus (generateSummary now (xs @ r # ys))
             = overallStatus (generateSummary now (xs @ ys))
         \<and> ((\<forall>x \<in> set rs. status x = u ''unknown'')
              \<longrightarrow> overallStatus (generateSummary now rs) = u ''pass'')
         \<and> (p_status res = None \<longrightarrow> status (runCheck nm (Inr res) t0 t1) = u ''unknown'')"
proof -
  have total: "total_checks (generateSummary now (xs @ r # ys))
                 = total_checks (generateSummary now (xs @ ys)) + 1"
    by (simp add: generateSummary_def Let_def)
  have p: "passed (generateSummary now (xs @ r # ys)) = passed (generateSummary now (xs @ ys))"
    using filter_status_skip [OF other(1)] by (simp add: generateSummary_def Let_def)
  have w: "warnings (generateSummary now (xs @ r # ys)) = warnings (generateSummary now (xs @ ys))"
    using filter_status_skip [OF other(2)] by (simp add: generateSummary_def Let_def)
  have f: "failed (generateSummary now (xs @ r # ys)) = failed (generateSummary now (xs @ ys))"
    using filter_status_skip [OF other(3)] by (simp add: generateSummary_def Let_def)
  have e: "errors (generateSummary now (xs @ r # ys)) = errors (generateSummary now (xs @ ys))"
    using filter_status_skip [OF other(4)] by (simp add: generateSummary_def Let_def)
  have overall: "overallStatus (generateSummary now (xs @ r # ys))
                   = overallStatus (generateSummary now (xs @ ys))"
    unfolding overallStatus_from_counts w f e ..
  have all_unknown: "overallStatus (generateSummary now rs) = u ''pass''"
    if "\<forall>x \<in> set rs. status x = u ''unknown''"
  proof -
    have "filter (\<lambda>x. status x = w') rs = []" if "w' \<noteq> u ''unknown''" for w'
      using \<open>\<forall>x \<in> set rs. status x = u ''unknown''\<close> that by (intro filter_none) auto
    then have "filter (\<lambda>x. status x = u ''error'') rs = []"
      "filter (\<lambda>x. status x = u ''fail'') rs = []"
      "filter (\<lambda>x. status x = u ''warning'') rs = []"
      using status_words_distinct by metis+
    then show ?thesis by (simp add: generateSummary_def Let_def)
  qed
  have default: "status (runCheck nm (Inr res) t0 t1) = u ''unknown''" if "p_status res = None"
    using that by (simp add: runCheck_def)
  from total p w f e overall all_unknown default show ?thesis by blast
qed

theorem unknown_status_counts_in_total_only_witness:
  "status (runCheck (u ''x'') (Inr \<lparr>p_status = None, p_message = None, p_details = None,
                                     p_error = None, p_fix = None\<rparr>) 0 5) = u ''unknown''
   \<and> total_checks (generateSummary [] ([] @
         runCheck (u ''x'') (Inr \<lparr>p_status = None, p_message = None, p_details = None,
                                  p_error = None, p_fix = None\<rparr>) 0 5 # [])) = 1
   \<and> passed (generateSummary [] ([] @
         runCheck (u ''x'') (Inr \<lparr>p_status = None, p_message = None, p_details = None,
                                  p_error = None, p_fix = None\<rparr>) 0 5 # [])) = 0
   \<and> overallStatus (generateSummary [] ([] @
         runCheck (u ''x'') (Inr \<lparr>p_status = None, p_message = None, p_details = None,
                                  p_error = None, p_fix = None\<rparr>) 0 5 # [])) = u ''pass''"
proof -
  let ?r = "runCheck (u ''x'') (Inr \<lparr>p_status = None, p_message = None, p_details = None,
                                      p_error = None, p_fix = None\<rparr>) 0 5"
  have st: "status ?r = u ''unknown''" by (simp add: runCheck_def)
  have other: "status ?r \<noteq> u ''pass''" "status ?r \<noteq> u ''warning''"
              "status ?r \<noteq> u ''fail''" "status ?r \<noteq> u ''error''"
    unfolding st using status_words_distinct by simp_all
  have empty: "total_checks (generateSummary [] ([] @ [])) = 0"
    "passed (generateSummary [] ([] @ [])) = 0"
    "overallStatus (generateSummary [] ([] @ [])) = u ''pass''"
    by (simp_all add: generateSummary_def)
  from unknown_status_counts_in_total_only [OF other, of "[]" "[]" "[]"] st empty
  show ?thesis by simp
qed

text \<open>
  C3. When the check function returns an object, \<open>runCheck\<close> returns the name given, the
  duration measured and the fields of the object, with status unknown when the object
  carries none. When the function throws, \<open>runCheck\<close> returns an error result with the
  message of the exception. \<open>runCheck\<close> always returns, so the loop of the run pushes one
  result per check, in order, whatever the checks did.
\<close>

theorem runCheck_returns_result_or_error:
  "(outcome = Inr r \<longrightarrow>
      name (runCheck nm outcome t0 t1) = nm
      \<and> duration (runCheck nm outcome t0 t1) = t1 - t0
      \<and> status (runCheck nm outcome t0 t1) = (case p_status r of None \<Rightarrow> u ''unknown'' | Some s \<Rightarrow> s)
      \<and> message (runCheck nm outcome t0 t1) = p_message r
      \<and> details (runCheck nm outcome t0 t1) = p_details r
      \<and> error (runCheck nm outcome t0 t1) = p_error r
      \<and> fix_list (runCheck nm outcome t0 t1) = p_fix r)
   \<and> (outcome = Inl e \<longrightarrow>
      name (runCheck nm outcome t0 t1) = nm
      \<and> status (runCheck nm outcome t0 t1) = u ''error''
      \<and> duration (runCheck nm outcome t0 t1) = t1 - t0
      \<and> error (runCheck nm outcome t0 t1) = Some (e_message e))
   \<and> map name (runChecks calls) = map c_check calls
   \<and> (\<forall>i < length calls. \<forall>e'. c_outcome (calls ! i) = Inl e' \<longrightarrow>
         status (runChecks calls ! i) = u ''error''
         \<and> error (runChecks calls ! i) = Some (e_message e'))"
proof -
  have ok: "outcome = Inr r \<longrightarrow>
      name (runCheck nm outcome t0 t1) = nm
      \<and> duration (runCheck nm outcome t0 t1) = t1 - t0
      \<and> status (runCheck nm outcome t0 t1) = (case p_status r of None \<Rightarrow> u ''unknown'' | Some s \<Rightarrow> s)
      \<and> message (runCheck nm outcome t0 t1) = p_message r
      \<and> details (runCheck nm outcome t0 t1) = p_details r
      \<and> error (runCheck nm outcome t0 t1) = p_error r
      \<and> fix_list (runCheck nm outcome t0 t1) = p_fix r"
    by (simp add: runCheck_def split: option.split)
  have thrown: "outcome = Inl e \<longrightarrow>
      name (runCheck nm outcome t0 t1) = nm
      \<and> status (runCheck nm outcome t0 t1) = u ''error''
      \<and> duration (runCheck nm outcome t0 t1) = t1 - t0
      \<and> error (runCheck nm outcome t0 t1) = Some (e_message e)"
    by (simp add: runCheck_def)
  have names: "map name (runChecks calls) = map c_check calls"
    by (simp add: runChecks_def runCheck_def comp_def split: sum.split)
  have later: "\<forall>i < length calls. \<forall>e'. c_outcome (calls ! i) = Inl e' \<longrightarrow>
         status (runChecks calls ! i) = u ''error''
         \<and> error (runChecks calls ! i) = Some (e_message e')"
    by (simp add: runChecks_def runCheck_def)
  from ok thrown names later show ?thesis by blast
qed

theorem runCheck_returns_result_or_error_witness:
  "map status (runChecks
      [\<lparr>c_check = u ''Config Check'', c_outcome = Inl (JsError (u ''Error'') (u ''boom'')),
        c_start = 10, c_end = 12\<rparr>,
       \<lparr>c_check = u ''Syntax Check'',
        c_outcome = Inr \<lparr>p_status = Some (u ''pass''), p_message = None, p_details = None,
                         p_error = None, p_fix = None\<rparr>,
        c_start = 12, c_end = 20\<rparr>]) = [u ''error'', u ''pass'']
   \<and> map name (runChecks
      [\<lparr>c_check = u ''Config Check'', c_outcome = Inl (JsError (u ''Error'') (u ''boom'')),
        c_start = 10, c_end = 12\<rparr>,
       \<lparr>c_check = u ''Syntax Check'',
        c_outcome = Inr \<lparr>p_status = Some (u ''pass''), p_message = None, p_details = None,
                         p_error = None, p_fix = None\<rparr>,
        c_start = 12, c_end = 20\<rparr>]) = [u ''Config Check'', u ''Syntax Check'']"
proof -
  let ?calls = "[\<lparr>c_check = u ''Config Check'', c_outcome = Inl (JsError (u ''Error'') (u ''boom'')),
        c_start = 10, c_end = 12\<rparr>,
       \<lparr>c_check = u ''Syntax Check'',
        c_outcome = Inr \<lparr>p_status = Some (u ''pass''), p_message = None, p_details = None,
                         p_error = None, p_fix = None\<rparr>,
        c_start = 12, c_end = 20\<rparr>]"
  have names: "map name (runChecks ?calls) = map c_check ?calls"
    using runCheck_returns_result_or_error [of "Inl (JsError [] [])" undefined "[]" 0 0 "JsError [] []" ?calls]
    by blast
  have second: "status (runChecks ?calls ! 1) = u ''pass''"
    by (simp add: runChecks_def runCheck_def)
  have first: "status (runChecks ?calls ! 0) = u ''error''"
    using runCheck_returns_result_or_error [of "Inl (JsError [] [])" undefined "[]" 0 0 "JsError [] []" ?calls]
    by simp
  have len: "length (runChecks ?calls) = 2" by (simp add: runChecks_def)
  have "map status (runChecks ?calls) = [status (runChecks ?calls ! 0), status (runChecks ?calls ! 1)]"
    using len by (simp add: runChecks_def)
  with first second names show ?thesis by simp
qed

section \<open>The report formatter (health-check.js) and the logger (lib/logger.js)\<close>

text \<open>
  The glyphs of the report, as the code units of the source text: the hospital, calendar,
  chart, collision and light bulb glyphs are surrogate pairs, and the warning sign is
  followed by the variation selector U+FE0F.
\<close>

definition g_hospital :: jstring where "g_hospital = [55356, 57317]"
definition g_calendar :: jstring where "g_calendar = [55357, 56517]"
definition g_chart :: jstring where "g_chart = [55357, 56522]"
definition g_pass :: jstring where "g_pass = [9989]"
definition g_warning :: jstring where "g_warning = [9888, 65039]"
definition g_fail :: jstring where "g_fail = [10060]"
definition g_error :: jstring where "g_error = [55357, 56485]"
definition g_unknown :: jstring where "g_unknown = [10067]"
definition g_bulb :: jstring where "g_bulb = [55357, 56481]"
definition g_tick :: jstring where "g_tick = [10003]"
definition g_ballot :: jstring where "g_ballot = [10007]"

text \<open>The object \<open>statusEmoji\<close>: a key that is not in it reads as \<open>undefined\<close>.\<close>

definition statusEmoji :: "jstring \<Rightarrow> jstring option" where
  "statusEmoji k =
     (if k = u ''pass'' then Some g_pass
      else if k = u ''warning'' then Some g_warning
      else if k = u ''fail'' then Some g_fail
      else if k = u ''error'' then Some g_error
      else if k = u ''unknown'' then Some g_unknown
      else None)"

text \<open>A value in a template literal: \<open>undefined\<close> prints as the word.\<close>

definition tpl :: "jstring option \<Rightarrow> jstring" where
  "tpl v = (case v of Some s \<Rightarrow> s | None \<Rightarrow> u ''undefined'')"

text \<open>The lines that the loop of \<open>formatResults\<close> pushes for one result.\<close>

definition formatResult :: "check_result \<Rightarrow> jstring list" where
  "formatResult result =
     (let emoji = (case statusEmoji (status result) of Some e \<Rightarrow> e | None \<Rightarrow> g_unknown)
      in [cat [emoji, u '' '', name result, u '' ['', show_int (duration result), u ''ms]'']]
         @ (if truthy (message result) then [u ''   '' @ tpl (message result)] else [])
         @ (case details result of
              Some ds \<Rightarrow>
                map (\<lambda>d. cat [u ''   '', (if d_status d = u ''pass'' then g_tick else g_ballot),
                               u '' '', d_message d]) ds
            | None \<Rightarrow> [])
         @ (if truthy (error result) then [u ''   Error: '' @ tpl (error result)] else [])
         @ (case fix_list result of
              Some (f # fs) \<Rightarrow>
                cat [u ''   '', g_bulb, u '' Suggested fix:'']
                # map (\<lambda>x. u ''      - '' @ x) (f # fs)
            | _ \<Rightarrow> [])
         @ [[]])"

text \<open>\<open>formatResults\<close>; \<open>localeNow\<close> is \<open>new Date().toLocaleString(...)\<close>.\<close>

definition formatResults :: "jstring \<Rightarrow> check_result list \<Rightarrow> 'a counts_scheme \<Rightarrow> jstring" where
  "formatResults localeNow results summary =
     join [10]
       ([g_hospital @ u '' Clawdbot Health Check Report'',
         cat [g_calendar, u '' '', localeNow],
         cat [g_chart, u '' Overall Status: '', tpl (statusEmoji (overallStatus summary)),
              u '' '', toUpperCase (overallStatus summary)],
         [],
         u ''## Summary'',
         u ''Total Checks: '' @ show_nat (total_checks summary),
         g_pass @ u '' Passed: '' @ show_nat (passed summary),
         g_warning @ u ''  Warnings: '' @ show_nat (warnings summary),
         g_fail @ u '' Failed: '' @ show_nat (failed summary),
         g_error @ u '' Errors: '' @ show_nat (errors summary),
         [],
         u ''## Details'']
        @ concat (map formatResult results))"

text \<open>
  \<open>logger.append\<close> adds \<open>logEntry\<close> to the end of the log file; \<open>isoNow\<close> is
  \<open>new Date().toISOString()\<close>.
\<close>

definition separator :: jstring where
  "separator = replicate 60 61"

definition logEntry :: "jstring \<Rightarrow> jstring \<Rightarrow> jstring" where
  "logEntry isoNow content =
     cat [separator, [10], g_calendar, u '' '', isoNow, [10], separator, [10], content, [10, 10]]"

section \<open>The trend parser (analyze-trends.js)\<close>

text \<open>The five regular expressions of \<open>parseHealthCheckLog\<close>, in the order of the source.\<close>

definition entry_separator_rx :: regex where
  "entry_separator_rx =
     rx_seqs [rx_rep 60 (\<lambda>x. x = 61), rx_chr 10, rx_lit g_calendar, rx_chr 32]"

definition digit_or :: "nat \<Rightarrow> nat \<Rightarrow> bool" where
  "digit_or c x \<longleftrightarrow> is_digit x \<or> x = c"

definition timestamp_rx :: regex where
  "timestamp_rx =
     rx_seqs [Bos,
              Grp 1 (rx_seqs [rx_plus (digit_or 45), rx_chr 84, rx_plus (digit_or 58),
                              Cls is_dot, rx_plus (digit_or 58)]),
              rx_chr 10]"

definition summary_rx :: regex where
  "summary_rx =
     rx_seqs [rx_lit (u ''## Summary''), rx_chr 10, Grp 1 (rx_lazy_plus is_any),
              rx_lit (u ''##'')]"

definition summary_line_rx :: regex where
  "summary_line_rx =
     rx_seqs [Grp 1 (rx_alts [rx_lit_i (u ''Total''), rx_lit_i (u ''Passed''),
                              rx_lit_i (u ''Warnings''), rx_lit_i (u ''Failed''),
                              rx_lit_i (u ''Errors''), rx_lit_i (u ''Overall'')]),
              rx_chr 58, Star is_space,
              Grp 2 (rx_alts [Seq (rx_opt (\<lambda>x. x = 58)) (rx_plus is_digit),
                              rx_lit g_pass, rx_lit g_warning, rx_lit g_fail, rx_lit g_error,
                              rx_lit_i (u ''PASS''), rx_lit_i (u ''WARNING''),
                              rx_lit_i (u ''FAIL''), rx_lit_i (u ''ERROR''),
                              rx_lit_i (u ''UNKNOWN'')])]"

definition details_rx :: regex where
  "details_rx = rx_seqs [rx_lit (u ''## Details''), rx_chr 10, Grp 1 (rx_plus is_any), Eos]"

text \<open>
  The class of the check line holds the code units of the five glyphs one by one: the two
  units of the warning sign and the two surrogates of the collision glyph are four members.
\<close>

definition check_line_rx :: regex where
  "check_line_rx =
     rx_seqs [Grp 1 (Cls (\<lambda>x. x \<in> set (g_pass @ g_warning @ g_fail @ g_error @ g_unknown))),
              rx_plus is_space,
              Grp 2 (rx_lazy_plus is_dot),
              rx_plus is_space,
              rx_chr 91, Grp 3 (rx_plus is_digit), rx_lit (u ''ms]'')]"

definition toLowerCase :: "jstring \<Rightarrow> jstring" where
  "toLowerCase s = map lower s"

text \<open>
  The numbers \<open>parseInt\<close> returns: \<open>NaN\<close>, a non-negative integer that is a double, or
  \<open>Infinity\<close>. \<open>to_number\<close> rounds a natural number to the nearest double (53 bits, ties
  to even): \<open>excess\<close> is the number of low bits to give up.
\<close>

datatype js_number = NaN | Finite nat | PosInfinity

function excess :: "nat \<Rightarrow> nat" where
  "excess n = (if n < 9007199254740992 then 0 else Suc (excess (n div 2)))"
  by pat_completeness auto
termination
  by (relation "measure id") auto

declare excess.simps [simp del]

definition to_number :: "nat \<Rightarrow> js_number" where
  "to_number n =
     (if n < 9007199254740992 then Finite n
      else
        (let e = excess n;
             q = n div 2 ^ e;
             r = n mod 2 ^ e;
             m = (if r > 2 ^ (e - 1) \<or> (r = 2 ^ (e - 1) \<and> odd q) then q + 1 else q)
         in if e > 971 \<or> (e = 971 \<and> m = 9007199254740992) then PosInfinity
            else Finite (m * 2 ^ e)))"

text \<open>
  \<open>parseInt\<close> on the strings this parser passes to it, which carry no sign and no
  \<open>0x\<close>: the number of the leading decimal digits, \<open>NaN\<close> without one.
\<close>

definition digits_value :: "jstring \<Rightarrow> nat" where
  "digits_value ds = foldl (\<lambda>a d. 10 * a + (d - 48)) 0 ds"

definition parseInt :: "jstring \<Rightarrow> js_number" where
  "parseInt s =
     (case takeWhile is_digit (dropWhile is_space s) of
        [] \<Rightarrow> NaN
      | d # ds \<Rightarrow> to_number (digits_value (d # ds)))"

text \<open>
  The summary the parser builds: the counts are what \<open>parseInt(value) || 0\<close> gave.
  \<open>set_count\<close> is the assignment \<open>summary[key] = ...\<close>, for the keys the expression can
  capture.
\<close>

record parsed_summary =
  n_total :: js_number
  n_passed :: js_number
  n_warnings :: js_number
  n_failed :: js_number
  n_errors :: js_number
  n_overallStatus :: jstring

definition or_zero :: "js_number \<Rightarrow> js_number" where
  "or_zero v = (if v = NaN then Finite 0 else v)"

definition set_count :: "jstring \<Rightarrow> js_number \<Rightarrow> parsed_summary \<Rightarrow> parsed_summary" where
  "set_count key v summary =
     (if key = u ''total'' then summary\<lparr>n_total := v\<rparr>
      else if key = u ''passed'' then summary\<lparr>n_passed := v\<rparr>
      else if key = u ''warnings'' then summary\<lparr>n_warnings := v\<rparr>
      else if key = u ''failed'' then summary\<lparr>n_failed := v\<rparr>
      else if key = u ''errors'' then summary\<lparr>n_errors := v\<rparr>
      else summary)"

text \<open>The body of the loop over the summary lines.\<close>

definition summary_line :: "parsed_summary \<Rightarrow> jstring \<Rightarrow> parsed_summary" where
  "summary_line summary line =
     (case rx_match line summary_line_rx of
        None \<Rightarrow> summary
      | Some m \<Rightarrow>
          (let key = toLowerCase (tpl (rx_group m 1));
               v = tpl (rx_group m 2)
           in if key = u ''overall'' then
                (if includes_str v g_pass \<or> includes_str v (u ''PASS'')
                   then summary\<lparr>n_overallStatus := u ''pass''\<rparr>
                 else if includes_str v g_warning \<or> includes_str v (u ''WARNING'')
                   then summary\<lparr>n_overallStatus := u ''warning''\<rparr>
                 else if includes_str v g_fail \<or> includes_str v (u ''FAIL'')
                   then summary\<lparr>n_overallStatus := u ''fail''\<rparr>
                 else if includes_str v g_error \<or> includes_str v (u ''ERROR'')
                   then summary\<lparr>n_overallStatus := u ''error''\<rparr>
                 else summary)
              else set_count key (or_zero (parseInt v)) summary))"

record parsed_check =
  c_name :: jstring
  c_status :: jstring
  c_duration :: js_number

text \<open>The body of the loop over the lines of the details: the checks it pushes.\<close>

definition check_line :: "jstring \<Rightarrow> parsed_check list" where
  "check_line line =
     (case rx_match line check_line_rx of
        None \<Rightarrow> []
      | Some m \<Rightarrow>
          (let emoji = tpl (rx_group m 1)
           in [\<lparr>c_name = trim (tpl (rx_group m 2)),
                c_status =
                  (if emoji = g_pass then u ''pass''
                   else if emoji = g_warning then u ''warning''
                   else if emoji = g_fail then u ''fail''
                   else if emoji = g_error then u ''error''
                   else u ''unknown''),
                c_duration = parseInt (tpl (rx_group m 3))\<rparr>]))"

record trend_entry =
  t_timestamp :: jstring
  t_summary :: parsed_summary
  t_checks :: "parsed_check list"

text \<open>
  The body of the loop over the raw entries: the entry it pushes, none after a
  \<open>continue\<close>. The timestamp is kept as the text captured.
\<close>

definition parse_entry :: "jstring \<Rightarrow> trend_entry list" where
  "parse_entry entry =
     (if trim entry = [] then []
      else case rx_match entry timestamp_rx of
        None \<Rightarrow> []
      | Some tm \<Rightarrow>
         (case rx_match entry summary_rx of
            None \<Rightarrow> []
          | Some sm \<Rightarrow>
             (let summaryLines = split_chr 10 (trim (tpl (rx_group sm 1)));
                  summary = foldl summary_line
                     \<lparr>n_total = Finite 0, n_passed = Finite 0, n_warnings = Finite 0,
                      n_failed = Finite 0, n_errors = Finite 0,
                      n_overallStatus = u ''unknown''\<rparr> summaryLines;
                  checks = (case rx_match entry details_rx of
                              None \<Rightarrow> []
                            | Some dm \<Rightarrow>
                                concat (map check_line (split_chr 10 (tpl (rx_group dm 1)))))
              in [\<lparr>t_timestamp = tpl (rx_group tm 1), t_summary = summary,
                   t_checks = checks\<rparr>])))"

text \<open>
  \<open>parseHealthCheckLog\<close>; \<open>dateValue\<close> is the time value of \<open>new Date(text)\<close>, by
  which the entries are sorted (the sort of JavaScript is stable).
\<close>

definition parseHealthCheckLog :: "(jstring \<Rightarrow> int) \<Rightarrow> jstring \<Rightarrow> trend_entry list" where
  "parseHealthCheckLog dateValue content =
     sort_key (\<lambda>e. dateValue (t_timestamp e))
       (concat (map parse_entry (split_rx content entry_separator_rx)))"

text \<open>A run of one check that passed, and the two renderings of the time of the report.\<close>

definition config_passed :: check_result where
  "config_passed =
     \<lparr>name = u ''Config Check'', status = u ''pass'', duration = 12, message = None,
      details = None, error = None, fix_list = None\<rparr>"

definition config_warned :: check_result where
  "config_warned =
     \<lparr>name = u ''Config Check'', status = u ''warning'', duration = 12, message = None,
      details = None, error = None, fix_list = None\<rparr>"

definition iso_now :: jstring where
  "iso_now = u ''2026-11-02T12:34:56.789Z''"

definition locale_now :: jstring where
  "locale_now = u ''2026/11/2 20:34:56''"

section \<open>The report read back by the trend parser\<close>

text \<open>
  C2. The claim asks that parsing a logged report gives back an entry with the counts, the
  overall status and the checks of the run. In the code the entry of a run of one passed
  check, logged at an ISO time, is dropped: the expression for the timestamp wants a line
  break right after digits and colons, and the ISO time ends with \<open>Z\<close>.
\<close>

theorem parseHealthCheckLog_loses_logged_report:
  "total_checks (generateSummary iso_now [config_passed]) = 1
   \<and> parseHealthCheckLog dateValue
        (logEntry iso_now
           (formatResults locale_now [config_passed] (generateSummary iso_now [config_passed])))
       = []"
  by code_simp

text \<open>
  Were the timestamp written without the \<open>Z\<close>, the entry would be kept, but not as
  written: the line \<open>Total Checks: 1\<close> has no \<open>Total:\<close> and the line of the overall
  status stands before the summary, so the total stays 0 and the overall status unknown;
  and the class of the check line takes the warning sign and its variation selector as two
  members, so the glyph captured is the selector alone and the status read is unknown.
\<close>

lemma parse_entry_with_bare_timestamp:
  "parseHealthCheckLog dateValue
     (logEntry (u ''2026-11-02T12:34:56'')
        (formatResults locale_now [config_warned] (generateSummary iso_now [config_warned])))
   = [\<lparr>t_timestamp = u ''2026-11-02T12:34:56'',
       t_summary = \<lparr>n_total = Finite 0, n_passed = Finite 0, n_warnings = Finite 1,
                    n_failed = Finite 0, n_errors = Finite 0,
                    n_overallStatus = u ''unknown''\<rparr>,
       t_checks = [\<lparr>c_name = u ''Config Check'', c_status = u ''unknown'',
                    c_duration = Finite 12\<rparr>]\<rparr>]"
  by code_simp

section \<open>The notifier (lib/notifier.js)\<close>

text \<open>
  The configuration object \<open>CONFIG\<close> of health-check.js and the report handed to the
  notifier. \<open>notionDbId\<close> is an environment variable: absent or a string.
\<close>

record config =
  clawdRoot :: jstring
  healthLog :: jstring
  notionDbId :: "jstring option"
  telegramGroup :: jstring
  alertOnly :: bool

record report =
  r_summary :: summary
  r_results :: "check_result list"
  r_reportText :: jstring

text \<open>
  What a call of \<open>spawn\<close> leads to: it throws, or the child closes with an exit code
  (\<open>null\<close> after a signal) and what it wrote to stdout and stderr, or the child emits an
  error. The environment is a function from the command line to this outcome.
\<close>

datatype spawn_outcome =
    Throws js_error
  | Exit "int option" jstring jstring
  | ErrorEvent js_error

type_synonym spawner = "jstring list \<Rightarrow> spawn_outcome"

record send_result =
  sr_success :: bool
  sr_output :: "jstring option"
  sr_error :: "jstring option"

text \<open>
  The promise both channels build around the child: an exception in the executor rejects
  it, the handlers of close and error resolve it.
\<close>

definition settle :: "spawn_outcome \<Rightarrow> js_error + send_result" where
  "settle out =
     (case out of
        Throws e \<Rightarrow> Inl e
      | Exit code stdout stderr \<Rightarrow>
          if code = Some 0
          then Inr \<lparr>sr_success = True, sr_output = Some stdout, sr_error = None\<rparr>
          else Inr \<lparr>sr_success = False, sr_output = None, sr_error = Some stderr\<rparr>
      | ErrorEvent err \<Rightarrow>
          Inr \<lparr>sr_success = False, sr_output = None, sr_error = Some (e_message err)\<rparr>)"

text \<open>
  \<open>sendTelegram\<close> and \<open>sendNotion\<close>: each builds the command line of its child
  (\<open>node\<close>, the script of the channel, the arguments) and settles on what spawning it
  leads to. The status glyphs of this module know pass, warning and fail only. The long
  message \<open>sendTelegram\<close> also builds is passed to nobody and is left out.
\<close>

definition telegramEmoji :: "jstring \<Rightarrow> jstring option" where
  "telegramEmoji k =
     (if k = u ''pass'' then Some g_pass
      else if k = u ''warning'' then Some g_warning
      else if k = u ''fail'' then Some g_fail
      else None)"

definition telegram_command :: "config \<Rightarrow> report \<Rightarrow> jstring list" where
  "telegram_command config rep =
     (let summary = r_summary rep;
          title = cat [tpl (telegramEmoji (overallStatus summary)), u '' Health Check: '',
                       toUpperCase (overallStatus summary)];
          summaryText = cat [u ''Passed: '', show_nat (passed summary), u ''/'',
                             show_nat (total_checks summary), u '' | Warnings: '',
                             show_nat (warnings summary), u '' | Failed: '',
                             show_nat (failed summary)];
          notifyScript = path_join [clawdRoot config,
                                    u ''skills/telegram-notification/scripts/notify-group.js'']
      in [u ''node'', notifyScript,
          u ''--target'', telegramGroup config,
          u ''--title'', title,
          u ''--summary'', summaryText])"

definition sendTelegram :: "config \<Rightarrow> report \<Rightarrow> spawner \<Rightarrow> js_error + send_result" where
  "sendTelegram config rep spawn = settle (spawn (telegram_command config rep))"

definition notion_command :: "config \<Rightarrow> report \<Rightarrow> jstring list" where
  "notion_command config rep =
     (let summary = r_summary rep;
          content = cat [u ''## Summary'', [10, 10],
                         u ''- Status: '', overallStatus summary, [10],
                         u ''- Passed: '', show_nat (passed summary), [10],
                         u ''- Warnings: '', show_nat (warnings summary), [10],
                         u ''- Failed: '', show_nat (failed summary), [10],
                         u ''- Errors: '', show_nat (errors summary), [10, 10],
                         u ''## Full Report'', [10, 10],
                         r_reportText rep];
          saveScript = path_join [clawdRoot config,
                         u ''skills/notion-persistence-universal/scripts/save-content.js'']
      in [u ''node'', saveScript,
          u ''--type'', u ''health_check'',
          u ''--content'', content])"

definition sendNotion :: "config \<Rightarrow> report \<Rightarrow> spawner \<Rightarrow> js_error + send_result" where
  "sendNotion config rep spawn =
     (if \<not> truthy (notionDbId config)
      then Inr \<lparr>sr_success = False, sr_output = None, sr_error = Some (u ''No Notion DB ID'')\<rparr>
      else settle (spawn (notion_command config rep)))"

record channel_result =
  ch_channel :: jstring
  ch_success :: bool
  ch_output :: "jstring option"
  ch_error :: "jstring option"

text \<open>One \<open>try\<close> block of \<open>send\<close>: the element pushed for a channel.\<close>

definition attempt :: "jstring \<Rightarrow> js_error + send_result \<Rightarrow> channel_result" where
  "attempt ch res =
     (case res of
        Inr r \<Rightarrow> \<lparr>ch_channel = ch, ch_success = sr_success r, ch_output = sr_output r,
                  ch_error = sr_error r\<rparr>
      | Inl err \<Rightarrow> \<lparr>ch_channel = ch, ch_success = False, ch_output = None,
                    ch_error = Some (e_message err)\<rparr>)"

definition send :: "config \<Rightarrow> report \<Rightarrow> spawner \<Rightarrow> channel_result list" where
  "send config rep spawn =
     [attempt (u ''telegram'') (sendTelegram config rep spawn)]
     @ (if truthy (notionDbId config)
        then [attempt (u ''notion'') (sendNotion config rep spawn)]
        else [])"

section \<open>Properties of the notifier\<close>

text \<open>The element \<open>send\<close> pushes for a channel, by what spawning the child led to.\<close>

lemma attempt_settle:
  "attempt ch (settle out) =
     (case out of
        Throws err \<Rightarrow> \<lparr>ch_channel = ch, ch_success = False, ch_output = None,
                        ch_error = Some (e_message err)\<rparr>
      | Exit code stdout stderr \<Rightarrow>
          if code = Some 0
          then \<lparr>ch_channel = ch, ch_success = True, ch_output = Some stdout, ch_error = None\<rparr>
          else \<lparr>ch_channel = ch, ch_success = False, ch_output = None, ch_error = Some stderr\<rparr>
      | ErrorEvent err \<Rightarrow> \<lparr>ch_channel = ch, ch_success = False, ch_output = None,
                            ch_error = Some (e_message err)\<rparr>)"
  by (cases out) (simp_all add: attempt_def settle_def)

lemma attempt_settle_failure:
  "\<not> ch_success (attempt ch (settle out)) \<Longrightarrow> ch_error (attempt ch (settle out)) \<noteq> None"
  unfolding attempt_settle by (cases out) (simp_all split: if_splits)

lemma send_first: "send config rep spawn ! 0 = attempt (u ''telegram'') (sendTelegram config rep spawn)"
  by (simp add: send_def)

lemma send_second:
  "truthy (notionDbId config) \<Longrightarrow>
   send config rep spawn ! 1 = attempt (u ''notion'') (sendNotion config rep spawn)"
  by (simp add: send_def)

text \<open>
  C8. \<open>send\<close> always returns: the Telegram channel is always attempted, the Notion channel
  exactly when \<open>notionDbId\<close> is set (a non-empty string), whatever the Telegram channel did,
  and there is one element per channel attempted, in this order. The child of a channel is
  \<open>node\<close> with the script of that channel, and the element of the channel is decided by
  what spawning that child led to: exit code 0 gives \<open>success: true\<close> with the output; any
  other exit gives \<open>success: false\<close> with what the child wrote to stderr; an error event or
  an exception gives \<open>success: false\<close> with the message of the error. So the element is
  the result the channel resolved with under its name, a failing channel gives an element
  with \<open>success: false\<close> and an error text, and nothing is thrown.
\<close>

theorem send_attempts_each_channel:
  "map ch_channel (send config rep spawn) =
     (if truthy (notionDbId config) then [u ''telegram'', u ''notion''] else [u ''telegram''])
   \<and> (\<forall>c \<in> set (send config rep spawn). \<not> ch_success c \<longrightarrow> ch_error c \<noteq> None)
   \<and> (\<forall>err. sendTelegram config rep spawn = Inl err \<longrightarrow>
         send config rep spawn ! 0 =
           \<lparr>ch_channel = u ''telegram'', ch_success = False, ch_output = None,
            ch_error = Some (e_message err)\<rparr>)
   \<and> (\<forall>err. truthy (notionDbId config) \<and> sendNotion config rep spawn = Inl err \<longrightarrow>
         send config rep spawn ! 1 =
           \<lparr>ch_channel = u ''notion'', ch_success = False, ch_output = None,
            ch_error = Some (e_message err)\<rparr>)
   \<and> (\<forall>r. sendTelegram config rep spawn = Inr r \<longrightarrow>
         send config rep spawn ! 0 =
           \<lparr>ch_channel = u ''telegram'', ch_success = sr_success r, ch_output = sr_output r,
            ch_error = sr_error r\<rparr>)
   \<and> (\<forall>r. truthy (notionDbId config) \<and> sendNotion config rep spawn = Inr r \<longrightarrow>
         send config rep spawn ! 1 =
           \<lparr>ch_channel = u ''notion'', ch_success = sr_success r, ch_output = sr_output r,
            ch_error = sr_error r\<rparr>)
   \<and> take 2 (telegram_command config rep) =
         [u ''node'', path_join [clawdRoot config,
                                 u ''skills/telegram-notification/scripts/notify-group.js'']]
   \<and> take 2 (notion_command config rep) =
         [u ''node'', path_join [clawdRoot config,
                                 u ''skills/notion-persistence-universal/scripts/save-content.js'']]
   \<and> send config rep spawn ! 0 =
        (case spawn (telegram_command config rep) of
           Throws err \<Rightarrow>
             \<lparr>ch_channel = u ''telegram'', ch_success = False, ch_output = None,
              ch_error = Some (e_message err)\<rparr>
         | Exit code stdout stderr \<Rightarrow>
             if code = Some 0
             then \<lparr>ch_channel = u ''telegram'', ch_success = True, ch_output = Some stdout,
                   ch_error = None\<rparr>
             else \<lparr>ch_channel = u ''telegram'', ch_success = False, ch_output = None,
                   ch_error = Some stderr\<rparr>
         | ErrorEvent err \<Rightarrow>
             \<lparr>ch_channel = u ''telegram'', ch_success = False, ch_output = None,
              ch_error = Some (e_message err)\<rparr>)
   \<and> (truthy (notionDbId config) \<longrightarrow>
        send config rep spawn ! 1 =
          (case spawn (notion_command config rep) of
             Throws err \<Rightarrow>
               \<lparr>ch_channel = u ''notion'', ch_success = False, ch_output = None,
                ch_error = Some (e_message err)\<rparr>
           | Exit code stdout stderr \<Rightarrow>
               if code = Some 0
               then \<lparr>ch_channel = u ''notion'', ch_success = True, ch_output = Some stdout,
                     ch_error = None\<rparr>
               else \<lparr>ch_channel = u ''notion'', ch_success = False, ch_output = None,
                     ch_error = Some stderr\<rparr>
           | ErrorEvent err \<Rightarrow>
               \<lparr>ch_channel = u ''notion'', ch_success = False, ch_output = None,
                ch_error = Some (e_message err)\<rparr>))"
proof -
  have channels: "map ch_channel (send config rep spawn) =
     (if truthy (notionDbId config) then [u ''telegram'', u ''notion''] else [u ''telegram''])"
    by (simp add: send_def attempt_def split: sum.split)
  have tele: "\<not> ch_success (attempt (u ''telegram'') (sendTelegram config rep spawn))
              \<Longrightarrow> ch_error (attempt (u ''telegram'') (sendTelegram config rep spawn)) \<noteq> None"
    unfolding sendTelegram_def by (rule attempt_settle_failure)
  have notion: "\<not> ch_success (attempt (u ''notion'') (sendNotion config rep spawn))
              \<Longrightarrow> ch_error (attempt (u ''notion'') (sendNotion config rep spawn)) \<noteq> None"
    if "truthy (notionDbId config)"
    using that unfolding sendNotion_def by (simp add: attempt_settle_failure)
  have failures: "\<forall>c \<in> set (send config rep spawn). \<not> ch_success c \<longrightarrow> ch_error c \<noteq> None"
    using tele notion by (auto simp: send_def)
  have thrown_tele: "\<forall>err. sendTelegram config rep spawn = Inl err \<longrightarrow>
         send config rep spawn ! 0 =
           \<lparr>ch_channel = u ''telegram'', ch_success = False, ch_output = None,
            ch_error = Some (e_message err)\<rparr>"
    by (simp add: send_first attempt_def)
  have thrown_notion: "\<forall>err. truthy (notionDbId config) \<and> sendNotion config rep spawn = Inl err \<longrightarrow>
         send config rep spawn ! 1 =
           \<lparr>ch_channel = u ''notion'', ch_success = False, ch_output = None,
            ch_error = Some (e_message err)\<rparr>"
    using send_second [of config rep spawn] by (auto simp: attempt_def)
  have resolved_tele: "\<forall>r. sendTelegram config rep spawn = Inr r \<longrightarrow>
         send config rep spawn ! 0 =
           \<lparr>ch_channel = u ''telegram'', ch_success = sr_success r, ch_output = sr_output r,
            ch_error = sr_error r\<rparr>"
    by (simp add: send_first attempt_def)
  have resolved_notion: "\<forall>r. truthy (notionDbId config) \<and> sendNotion config rep spawn = Inr r \<longrightarrow>
         send config rep spawn ! 1 =
           \<lparr>ch_channel = u ''notion'', ch_success = sr_success r, ch_output = sr_output r,
            ch_error = sr_error r\<rparr>"
    using send_second [of config rep spawn] by (auto simp: attempt_def)
  have cmd_tele: "take 2 (telegram_command config rep) =
         [u ''node'', path_join [clawdRoot config,
                                 u ''skills/telegram-notification/scripts/notify-group.js'']]"
    by (simp add: telegram_command_def Let_def)
  have cmd_notion: "take 2 (notion_command config rep) =
         [u ''node'', path_join [clawdRoot config,
                                 u ''skills/notion-persistence-universal/scripts/save-content.js'']]"
    by (simp add: notion_command_def Let_def)
  have child_tele: "send config rep spawn ! 0 =
        (case spawn (telegram_command config rep) of
           Throws err \<Rightarrow>
             \<lparr>ch_channel = u ''telegram'', ch_success = False, ch_output = None,
              ch_error = Some (e_message err)\<rparr>
         | Exit code stdout stderr \<Rightarrow>
             if code = Some 0
             then \<lparr>ch_channel = u ''telegram'', ch_success = True, ch_output = Some stdout,
                   ch_error = None\<rparr>
             else \<lparr>ch_channel = u ''telegram'', ch_success = False, ch_output = None,
                   ch_error = Some stderr\<rparr>
         | ErrorEvent err \<Rightarrow>
             \<lparr>ch_channel = u ''telegram'', ch_success = False, ch_output = None,
              ch_error = Some (e_message err)\<rparr>)"
    unfolding send_first sendTelegram_def by (rule attempt_settle)
  have child_notion: "send config rep spawn ! 1 =
          (case spawn (notion_command config rep) of
             Throws err \<Rightarrow>
               \<lparr>ch_channel = u ''notion'', ch_success = False, ch_output = None,
                ch_error = Some (e_message err)\<rparr>
           | Exit code stdout stderr \<Rightarrow>
               if code = Some 0
               then \<lparr>ch_channel = u ''notion'', ch_success = True, ch_output = Some stdout,
                     ch_error = None\<rparr>
               else \<lparr>ch_channel = u ''notion'', ch_success = False, ch_output = None,
                     ch_error = Some stderr\<rparr>
           | ErrorEvent err \<Rightarrow>
               \<lparr>ch_channel = u ''notion'', ch_success = False, ch_output = None,
                ch_error = Some (e_message err)\<rparr>)"
    if set: "truthy (notionDbId config)"
  proof -
    have "sendNotion config rep spawn = settle (spawn (notion_command config rep))"
      using set by (simp add: sendNotion_def)
    then show ?thesis
      unfolding send_second [OF set] by (simp only: attempt_settle)
  qed
  show ?thesis
    using channels failures thrown_tele thrown_notion resolved_tele resolved_notion
      cmd_tele cmd_notion child_tele child_notion
    by (intro conjI impI) assumption+
qed

theorem send_attempts_each_channel_witness:
  "send \<lparr>clawdRoot = u ''/bot'', healthLog = u ''/tmp/h.log'', notionDbId = Some (u ''db1''),
          telegramGroup = u ''discussion'', alertOnly = True\<rparr>
        \<lparr>r_summary = generateSummary [] [], r_results = [], r_reportText = []\<rparr>
        (\<lambda>args. if args ! 2 = u ''--target''
                 then Exit (Some 1) [] (u ''chat not found'')
                 else Exit (Some 0) (u ''saved'') [])
   = [\<lparr>ch_channel = u ''telegram'', ch_success = False, ch_output = None,
       ch_error = Some (u ''chat not found'')\<rparr>,
      \<lparr>ch_channel = u ''notion'', ch_success = True, ch_output = Some (u ''saved''),
       ch_error = None\<rparr>]"
proof -
  let ?config = "\<lparr>clawdRoot = u ''/bot'', healthLog = u ''/tmp/h.log'', notionDbId = Some (u ''db1''),
          telegramGroup = u ''discussion'', alertOnly = True\<rparr>"
  let ?rep = "\<lparr>r_summary = generateSummary [] [], r_results = [], r_reportText = []\<rparr>"
  let ?spawn = "\<lambda>args. if args ! 2 = u ''--target''
                 then Exit (Some 1) [] (u ''chat not found'')
                 else Exit (Some 0) (u ''saved'') []"
  have set: "truthy (notionDbId ?config)" by (simp add: u_def)
  have tele: "?spawn (telegram_command ?config ?rep) = Exit (Some 1) [] (u ''chat not found'')"
    by (simp add: telegram_command_def Let_def)
  have notion: "?spawn (notion_command ?config ?rep) = Exit (Some 0) (u ''saved'') []"
    by (simp add: notion_command_def Let_def u_def)
  from send_attempts_each_channel [of ?config ?rep ?spawn] set
  have first: "send ?config ?rep ?spawn ! 0 =
        (case ?spawn (telegram_command ?config ?rep) of
           Throws err \<Rightarrow>
             \<lparr>ch_channel = u ''telegram'', ch_success = False, ch_output = None,
              ch_error = Some (e_message err)\<rparr>
         | Exit code stdout stderr \<Rightarrow>
             if code = Some 0
             then \<lparr>ch_channel = u ''telegram'', ch_success = True, ch_output = Some stdout,
                   ch_error = None\<rparr>
             else \<lparr>ch_channel = u ''telegram'', ch_success = False, ch_output = None,
                   ch_error = Some stderr\<rparr>
         | ErrorEvent err \<Rightarrow>
             \<lparr>ch_channel = u ''telegram'', ch_success = False, ch_output = None,
              ch_error = Some (e_message err)\<rparr>)"
    and second: "send ?config ?rep ?spawn ! 1 =
          (case ?spawn (notion_command ?config ?rep) of
             Throws err \<Rightarrow>
               \<lparr>ch_channel = u ''notion'', ch_success = False, ch_output = None,
                ch_error = Some (e_message err)\<rparr>
           | Exit code stdout stderr \<Rightarrow>
               if code = Some 0
               then \<lparr>ch_channel = u ''notion'', ch_success = True, ch_output = Some stdout,
                     ch_error = None\<rparr>
               else \<lparr>ch_channel = u ''notion'', ch_success = False, ch_output = None,
                     ch_error = Some stderr\<rparr>
           | ErrorEvent err \<Rightarrow>
               \<lparr>ch_channel = u ''notion'', ch_success = False, ch_output = None,
                ch_error = Some (e_message err)\<rparr>)"
    and chans: "map ch_channel (send ?config ?rep ?spawn) = [u ''telegram'', u ''notion'']"
    by presburger+
  have first': "send ?config ?rep ?spawn ! 0 =
      \<lparr>ch_channel = u ''telegram'', ch_success = False, ch_output = None,
       ch_error = Some (u ''chat not found'')\<rparr>"
    unfolding first tele by simp
  have second': "send ?config ?rep ?spawn ! 1 =
      \<lparr>ch_channel = u ''notion'', ch_success = True, ch_output = Some (u ''saved''),
       ch_error = None\<rparr>"
    unfolding second notion by simp
  from chans have len: "length (send ?config ?rep ?spawn) = 2"
    by (metis length_map length_Cons list.size(3) One_nat_def Suc_1)
  have "send ?config ?rep ?spawn = [send ?config ?rep ?spawn ! 0, send ?config ?rep ?spawn ! 1]"
    using len by (intro nth_equalityI) (auto simp: less_Suc_eq numeral_2_eq_2)
  with first' second' show ?thesis by simp
qed

section \<open>The configuration check (checks/config.js)\<close>

definition REQUIRED_ENV_VARS :: "jstring list" where
  "REQUIRED_ENV_VARS =
     [u ''NOTION_API_KEY'',
      u ''NOTION_DISCUSSION_DATABASE_ID'',
      u ''NOTION_DAILY_REPORT_DATABASE_ID'',
      u ''TELEGRAM_BOT_TOKEN'',
      u ''TELEGRAM_DISCUSSION_GROUP_ID'',
      u ''TELEGRAM_DAILY_REPORT_GROUP_ID'']"

definition OPTIONAL_ENV_VARS :: "jstring list" where
  "OPTIONAL_ENV_VARS =
     [u ''TELEGRAM_GENERAL_GROUP_ID'',
      u ''NOTION_MEETING_DATABASE_ID'']"

text \<open>
  A file as the check meets it: \<open>existsSync\<close> is false, or \<open>readFile\<close> throws, or it
  gives the content.
\<close>

datatype file_state = Absent | Unreadable js_error | Content jstring

text \<open>\<open>xs[i]\<close>: \<open>undefined\<close> out of range.\<close>

definition nth_opt :: "'a list \<Rightarrow> nat \<Rightarrow> 'a option" where
  "nth_opt xs i = (if i < length xs then Some (xs ! i) else None)"

text \<open>
  Calling \<open>trim\<close> on \<open>undefined\<close> throws a \<open>TypeError\<close>; the message is the one of V8.
\<close>

definition undefined_trim :: js_error where
  "undefined_trim =
     JsError (u ''TypeError'')
       (cat [u ''Cannot read properties of undefined (reading '', [39], u ''trim'', [39], u '')''])"

text \<open>The line \<open>lines.find(...)\<close> gives for a variable.\<close>

definition var_line :: "jstring list \<Rightarrow> jstring \<Rightarrow> jstring option" where
  "var_line lines varName =
     find_first (\<lambda>l. startsWith l (varName @ u ''='') \<or> startsWith l (varName @ u '' '')) lines"

text \<open>
  The three branches of the loop over the required variables, and the exception of
  \<open>line.split('=')[1].trim()\<close> when the line found has no \<open>=\<close>.
\<close>

datatype var_state = IsMissing | IsEmpty | IsDefined

definition classify :: "jstring list \<Rightarrow> jstring \<Rightarrow> js_error + var_state" where
  "classify lines varName =
     (case var_line lines varName of
        None \<Rightarrow> Inr IsMissing
      | Some line \<Rightarrow>
          (case nth_opt (split_chr 61 line) 1 of
             None \<Rightarrow> Inl undefined_trim
           | Some v \<Rightarrow> if trim v = [] then Inr IsEmpty else Inr IsDefined))"

record env_vars =
  definedVars :: "jstring list"
  emptyVars :: "jstring list"
  missingVars :: "jstring list"
  issues :: "jstring list"
  fixes' :: "jstring list"

fun check_required :: "jstring list \<Rightarrow> jstring list \<Rightarrow> env_vars \<Rightarrow> js_error + env_vars" where
  "check_required lines [] acc = Inr acc"
| "check_required lines (varName # rest) acc =
     (case classify lines varName of
        Inl err \<Rightarrow> Inl err
      | Inr IsMissing \<Rightarrow>
          check_required lines rest
            (acc\<lparr>missingVars := missingVars acc @ [varName],
                 issues := issues acc @ [u ''Missing required variable: '' @ varName],
                 fixes' := fixes' acc @ [cat [u ''Add '', varName, u ''=your_value to .env'']]\<rparr>)
      | Inr IsEmpty \<Rightarrow>
          check_required lines rest
            (acc\<lparr>emptyVars := emptyVars acc @ [varName],
                 issues := issues acc @ [u ''Empty value for: '' @ varName],
                 fixes' := fixes' acc @ [cat [u ''Set a value for '', varName, u '' in .env'']]\<rparr>)
      | Inr IsDefined \<Rightarrow>
          check_required lines rest (acc\<lparr>definedVars := definedVars acc @ [varName]\<rparr>))"

text \<open>The two expressions of \<open>suspiciousPatterns\<close>, both with the \<open>i\<close> flag.\<close>

definition placeholder_rx :: regex where
  "placeholder_rx =
     rx_alts [rx_lit_i (u ''your_token_here''), rx_lit_i (u ''your_api_key''),
              rx_lit_i (u ''replace_with'')]"

definition potential_secret_rx :: regex where
  "potential_secret_rx =
     rx_alts [rx_lit_i (u ''secret''), rx_lit_i (u ''password''), rx_lit_i (u ''token''),
              rx_lit_i (u ''key'')]"

definition suspicious :: "jstring \<Rightarrow> regex \<Rightarrow> jstring \<Rightarrow> detail list" where
  "suspicious content pattern nm =
     (case rx_match content pattern of
        None \<Rightarrow> []
      | Some m \<Rightarrow> [\<lparr>d_status = u ''warning'',
                     d_message = cat [u ''Found '', nm, u '': '', matched m]\<rparr>])"

text \<open>The result of the \<open>catch\<close> block of \<open>checkEnvFile\<close>.\<close>

definition read_failure :: "js_error \<Rightarrow> partial_result" where
  "read_failure err =
     \<lparr>p_status = Some (u ''error''),
      p_message = Some (u ''Failed to read .env file''),
      p_details = None,
      p_error = Some (e_message err),
      p_fix = None\<rparr>"

text \<open>What \<open>checkEnvFile\<close> returns once the loop over the required variables is through.\<close>

definition env_report :: "jstring \<Rightarrow> jstring list \<Rightarrow> env_vars \<Rightarrow> partial_result" where
  "env_report content lines vars =
     (let missingOptional = filter (\<lambda>varName. var_line lines varName = None) OPTIONAL_ENV_VARS;
          details =
            [\<lparr>d_status = u ''pass'',
              d_message = cat [u ''Found '', show_nat (length (definedVars vars)), u ''/'',
                               show_nat (length REQUIRED_ENV_VARS), u '' required variables'']\<rparr>]
            @ (if length (definedVars vars) > 0
               then [\<lparr>d_status = u ''pass'',
                      d_message = u ''Defined: '' @ join (u '', '') (definedVars vars)\<rparr>]
               else [])
            @ (if length (missingVars vars) > 0
               then [\<lparr>d_status = u ''fail'',
                      d_message = u ''Missing: '' @ join (u '', '') (missingVars vars)\<rparr>]
               else [])
            @ (if length (emptyVars vars) > 0
               then [\<lparr>d_status = u ''fail'',
                      d_message = u ''Empty values: '' @ join (u '', '') (emptyVars vars)\<rparr>]
               else [])
            @ (if length missingOptional > 0
               then [\<lparr>d_status = u ''warning'',
                      d_message = u ''Optional not set: '' @ join (u '', '') missingOptional\<rparr>]
               else [])
            @ suspicious content placeholder_rx (u ''placeholder value'')
            @ suspicious content potential_secret_rx (u ''potential secret in env'');
          status =
            (if length (missingVars vars) > 0 \<or> length (emptyVars vars) > 0 then u ''fail''
             else if length missingOptional > 0 then u ''warning''
             else u ''pass'')
      in \<lparr>p_status = Some status,
          p_message = Some (cat [u ''Config check: '', show_nat (length (definedVars vars)),
                                 u ''/'', show_nat (length REQUIRED_ENV_VARS),
                                 u '' required vars set'']),
          p_details = Some details,
          p_error = (if length (issues vars) > 0 then Some (join (u ''; '') (issues vars))
                     else None),
          p_fix = Some (fixes' vars)\<rparr>)"

definition checkEnvFile :: "jstring \<Rightarrow> file_state \<Rightarrow> partial_result" where
  "checkEnvFile envPath file =
     (case file of
        Absent \<Rightarrow>
          \<lparr>p_status = Some (u ''fail''),
           p_message = Some (u ''.env file not found: '' @ envPath),
           p_details = Some [],
           p_error = None,
           p_fix = Some [u ''Create .env file at: '' @ envPath]\<rparr>
      | Unreadable err \<Rightarrow> read_failure err
      | Content content \<Rightarrow>
          (let lines = split_chr 10 content
           in case check_required lines REQUIRED_ENV_VARS
                     \<lparr>definedVars = [], emptyVars = [], missingVars = [], issues = [],
                      fixes' = []\<rparr> of
                Inl err \<Rightarrow> read_failure err
              | Inr vars \<Rightarrow> env_report content lines vars))"

text \<open>
  The words in which the outcome of the check is stated, over the lines of the file alone.
  A line mentions a variable when it begins with the name followed by \<open>=\<close> or by a space;
  the line of a variable is the first line of the file that mentions it; the value on a
  line is the text between its first \<open>=\<close> and the next \<open>=\<close>, or the end of the line.
\<close>

definition mentions :: "jstring \<Rightarrow> jstring \<Rightarrow> bool" where
  "mentions l k \<longleftrightarrow> startsWith l (k @ u ''='') \<or> startsWith l (k @ u '' '')"

definition first_mention :: "jstring list \<Rightarrow> jstring \<Rightarrow> jstring \<Rightarrow> bool" where
  "first_mention lines k l \<longleftrightarrow>
     (\<exists>before after. lines = before @ l # after \<and> mentions l k
                      \<and> (\<forall>p \<in> set before. \<not> mentions p k))"

definition value_text :: "jstring \<Rightarrow> jstring" where
  "value_text l = takeWhile (\<lambda>c. c \<noteq> 61) (drop 1 (dropWhile (\<lambda>c. c \<noteq> 61) l))"

text \<open>Settings files for the examples below.\<close>

definition env_all_keys :: jstring where
  "env_all_keys =
     join [10]
       [u ''NOTION_API_KEY=k1'',
        u ''NOTION_DISCUSSION_DATABASE_ID=d1'',
        u ''NOTION_DAILY_REPORT_DATABASE_ID=d2'',
        u ''TELEGRAM_BOT_TOKEN=t1'',
        u ''TELEGRAM_DISCUSSION_GROUP_ID=g1'',
        u ''TELEGRAM_DAILY_REPORT_GROUP_ID=g2'',
        u ''TELEGRAM_GENERAL_GROUP_ID=g3'',
        u ''NOTION_MEETING_DATABASE_ID=d3'']"

definition env_required_only :: jstring where
  "env_required_only =
     join [10]
       [u ''NOTION_API_KEY=k1'',
        u ''NOTION_DISCUSSION_DATABASE_ID=d1'',
        u ''NOTION_DAILY_REPORT_DATABASE_ID=d2'',
        u ''TELEGRAM_BOT_TOKEN=t1'',
        u ''TELEGRAM_DISCUSSION_GROUP_ID=g1'',
        u ''TELEGRAM_DAILY_REPORT_GROUP_ID=g2'']"

definition env_key_absent :: jstring where
  "env_key_absent =
     join [10]
       [u ''NOTION_DISCUSSION_DATABASE_ID='',
        u ''NOTION_DAILY_REPORT_DATABASE_ID=d2'',
        u ''TELEGRAM_BOT_TOKEN=t1'',
        u ''TELEGRAM_DISCUSSION_GROUP_ID=g1'',
        u ''TELEGRAM_DAILY_REPORT_GROUP_ID=g2'']"

definition env_repeated_key :: jstring where
  "env_repeated_key =
     join [10]
       [u ''NOTION_API_KEY=k1'',
        u ''NOTION_API_KEY k2'',
        u ''NOTION_DISCUSSION_DATABASE_ID=d1'',
        u ''NOTION_DAILY_REPORT_DATABASE_ID=d2'',
        u ''TELEGRAM_BOT_TOKEN=t1'',
        u ''TELEGRAM_DISCUSSION_GROUP_ID=g1'',
        u ''TELEGRAM_DAILY_REPORT_GROUP_ID=g2'']"

definition env_space_line :: jstring where
  "env_space_line =
     join [10]
       [u ''NOTION_API_KEY=k1'',
        u ''TELEGRAM_BOT_TOKEN t1'']"

section \<open>Properties of the configuration check\<close>

lemma classify_error: "classify lines v = Inl err \<Longrightarrow> err = undefined_trim"
  by (auto simp: classify_def split: option.splits if_splits)

lemma check_required_returns:
  "\<forall>v \<in> set vs. classify lines v \<noteq> Inl undefined_trim \<Longrightarrow>
   \<exists>vars. check_required lines vs acc = Inr vars
     \<and> definedVars vars = definedVars acc @ filter (\<lambda>v. classify lines v = Inr IsDefined) vs
     \<and> emptyVars vars = emptyVars acc @ filter (\<lambda>v. classify lines v = Inr IsEmpty) vs
     \<and> missingVars vars = missingVars acc @ filter (\<lambda>v. classify lines v = Inr IsMissing) vs"
proof (induction vs arbitrary: acc)
  case Nil
  then show ?case by simp
next
  case (Cons v vs)
  from Cons.prems have rest: "\<forall>v \<in> set vs. classify lines v \<noteq> Inl undefined_trim"
    and here: "classify lines v \<noteq> Inl undefined_trim" by simp_all
  from here obtain st where st: "classify lines v = Inr st"
    using classify_error by (cases "classify lines v") auto
  show ?case
  proof (cases st)
    case IsMissing
    with st Cons.IH [OF rest, of "acc\<lparr>missingVars := missingVars acc @ [v],
                 issues := issues acc @ [u ''Missing required variable: '' @ v],
                 fixes' := fixes' acc @ [cat [u ''Add '', v, u ''=your_value to .env'']]\<rparr>"]
    show ?thesis by auto
  next
    case IsEmpty
    with st Cons.IH [OF rest, of "acc\<lparr>emptyVars := emptyVars acc @ [v],
                 issues := issues acc @ [u ''Empty value for: '' @ v],
                 fixes' := fixes' acc @ [cat [u ''Set a value for '', v, u '' in .env'']]\<rparr>"]
    show ?thesis by auto
  next
    case IsDefined
    with st Cons.IH [OF rest, of "acc\<lparr>definedVars := definedVars acc @ [v]\<rparr>"]
    show ?thesis by auto
  qed
qed

lemma check_required_throws:
  "v \<in> set vs \<Longrightarrow> classify lines v = Inl err \<Longrightarrow> check_required lines vs acc = Inl undefined_trim"
proof (induction vs arbitrary: acc)
  case Nil
  then show ?case by simp
next
  case (Cons w ws)
  show ?case
  proof (cases "classify lines w")
    case (Inl e)
    then show ?thesis using classify_error [OF Inl] by simp
  next
    case (Inr st)
    with Cons.prems have "v \<in> set ws" by auto
    from Cons.IH [OF this Cons.prems(2)] Inr show ?thesis by (cases st) simp_all
  qed
qed

lemma env_report_status:
  "p_status (env_report content lines vars) =
     Some (if missingVars vars \<noteq> [] \<or> emptyVars vars \<noteq> [] then u ''fail''
           else if filter (\<lambda>v. var_line lines v = None) OPTIONAL_ENV_VARS \<noteq> [] then u ''warning''
           else u ''pass'')"
  by (simp add: env_report_def Let_def)

lemma env_report_missing_detail:
  "missingVars vars \<noteq> [] \<Longrightarrow>
   \<lparr>d_status = u ''fail'', d_message = u ''Missing: '' @ join (u '', '') (missingVars vars)\<rparr>
     \<in> set (the (p_details (env_report content lines vars)))"
  by (simp add: env_report_def Let_def)

lemma includes_str_self: "includes_str (v @ b) v"
proof (cases "v @ b")
  case Nil
  then show ?thesis by simp
next
  case (Cons x t)
  have "startsWith (v @ b) v" by (simp add: startsWith_def)
  with Cons show ?thesis by simp
qed

lemma includes_str_middle: "includes_str (a @ v @ b) v"
  by (induction a) (simp_all add: includes_str_self)

lemma join_has_member: "v \<in> set ms \<Longrightarrow> \<exists>a b. join sep ms = a @ v @ b"
proof (induction sep ms rule: join.induct)
  case (1 sep)
  then show ?case by simp
next
  case (2 sep x)
  then have "join sep [x] = [] @ v @ []" by simp
  then show ?case by blast
next
  case (3 sep x y ys)
  show ?case
  proof (cases "v = x")
    case True
    then have "join sep (x # y # ys) = [] @ v @ (sep @ join sep (y # ys))" by simp
    then show ?thesis by blast
  next
    case False
    with 3 obtain a b where "join sep (y # ys) = a @ v @ b" by auto
    then have "join sep (x # y # ys) = (x @ sep @ a) @ v @ b" by simp
    then show ?thesis by blast
  qed
qed

lemma includes_str_join: "v \<in> set ms \<Longrightarrow> includes_str (p @ join sep ms) v"
proof -
  assume "v \<in> set ms"
  then obtain a b where "join sep ms = a @ v @ b" using join_has_member by blast
  then have "p @ join sep ms = (p @ a) @ v @ b" by simp
  then show ?thesis using includes_str_middle by metis
qed

lemma split_chr_without: "c \<notin> set s \<Longrightarrow> split_chr c s = [s]"
  by (induction s) auto

lemma find_first_holds: "find_first P xs = Some x \<Longrightarrow> P x \<and> x \<in> set xs"
  unfolding find_first_def by (induction xs) (auto split: if_splits)

lemma find_first_none: "find_first P xs = None \<longleftrightarrow> (\<forall>x \<in> set xs. \<not> P x)"
  unfolding find_first_def by (auto simp: find_None_iff)

lemma startsWith_member: "startsWith s (p @ [c]) \<Longrightarrow> c \<in> set s"
proof -
  assume "startsWith s (p @ [c])"
  then have "take (length (p @ [c])) s = p @ [c]" by (simp add: startsWith_def)
  then have "c \<in> set (take (length (p @ [c])) s)" by simp
  then show ?thesis by (rule in_set_takeD)
qed

text \<open>
  The status of a settings file by the branch that the loop takes for each required
  variable, when no branch throws.
\<close>

lemma checkEnvFile_status_by_states:
  assumes wf: "\<forall>v \<in> set REQUIRED_ENV_VARS. classify (split_chr 10 content) v \<noteq> Inl undefined_trim"
  shows "((\<forall>v \<in> set REQUIRED_ENV_VARS. classify (split_chr 10 content) v = Inr IsDefined)
            \<longrightarrow> p_status (checkEnvFile envPath (Content content)) =
                  Some (if \<forall>v \<in> set OPTIONAL_ENV_VARS. var_line (split_chr 10 content) v \<noteq> None
                        then u ''pass'' else u ''warning''))
         \<and> (\<forall>v \<in> set REQUIRED_ENV_VARS. classify (split_chr 10 content) v = Inr IsMissing
            \<longrightarrow> p_status (checkEnvFile envPath (Content content)) = Some (u ''fail'')
                \<and> (\<exists>d \<in> set (the (p_details (checkEnvFile envPath (Content content)))).
                      d_status d = u ''fail''
                      \<and> startsWith (d_message d) (u ''Missing: '')
                      \<and> includes_str (d_message d) v))
         \<and> (\<forall>v \<in> set REQUIRED_ENV_VARS. classify (split_chr 10 content) v = Inr IsEmpty
            \<longrightarrow> p_status (checkEnvFile envPath (Content content)) = Some (u ''fail''))"
proof -
  let ?lines = "split_chr 10 content"
  let ?acc = "\<lparr>definedVars = [], emptyVars = [], missingVars = [], issues = [], fixes' = []\<rparr>"
  from check_required_returns [OF wf, of ?acc]
  obtain vars where scan: "check_required ?lines REQUIRED_ENV_VARS ?acc = Inr vars"
    and defd: "definedVars vars = filter (\<lambda>v. classify ?lines v = Inr IsDefined) REQUIRED_ENV_VARS"
    and empt: "emptyVars vars = filter (\<lambda>v. classify ?lines v = Inr IsEmpty) REQUIRED_ENV_VARS"
    and miss: "missingVars vars = filter (\<lambda>v. classify ?lines v = Inr IsMissing) REQUIRED_ENV_VARS"
    by auto
  have res: "checkEnvFile envPath (Content content) = env_report content ?lines vars"
    using scan by (simp add: checkEnvFile_def Let_def)
  have all_set: "p_status (checkEnvFile envPath (Content content)) =
                  Some (if \<forall>v \<in> set OPTIONAL_ENV_VARS. var_line ?lines v \<noteq> None
                        then u ''pass'' else u ''warning'')"
    if "\<forall>v \<in> set REQUIRED_ENV_VARS. classify ?lines v = Inr IsDefined"
  proof -
    from that have "missingVars vars = []" "emptyVars vars = []"
      unfolding miss empt by (auto simp: filter_empty_conv)
    then show ?thesis
      unfolding res env_report_status by (auto simp: filter_empty_conv)
  qed
  have absent: "p_status (checkEnvFile envPath (Content content)) = Some (u ''fail'')
                \<and> (\<exists>d \<in> set (the (p_details (checkEnvFile envPath (Content content)))).
                      d_status d = u ''fail''
                      \<and> startsWith (d_message d) (u ''Missing: '')
                      \<and> includes_str (d_message d) v)"
    if "v \<in> set REQUIRED_ENV_VARS" "classify ?lines v = Inr IsMissing" for v
  proof -
    from that have mem: "v \<in> set (missingVars vars)" unfolding miss by simp
    then have ne: "missingVars vars \<noteq> []" by auto
    let ?d = "\<lparr>d_status = u ''fail'', d_message = u ''Missing: '' @ join (u '', '') (missingVars vars)\<rparr>"
    have "?d \<in> set (the (p_details (checkEnvFile envPath (Content content))))"
      unfolding res by (rule env_report_missing_detail [OF ne])
    moreover have "includes_str (d_message ?d) v"
      using includes_str_join [OF mem] by simp
    moreover have "startsWith (d_message ?d) (u ''Missing: '')"
      by (simp add: startsWith_def)
    moreover have "p_status (checkEnvFile envPath (Content content)) = Some (u ''fail'')"
      unfolding res env_report_status using ne by simp
    ultimately show ?thesis by (intro conjI bexI [of _ ?d]) simp_all
  qed
  have empty: "p_status (checkEnvFile envPath (Content content)) = Some (u ''fail'')"
    if "v \<in> set REQUIRED_ENV_VARS" "classify ?lines v = Inr IsEmpty" for v
  proof -
    from that have "v \<in> set (emptyVars vars)" unfolding empt by simp
    then have "emptyVars vars \<noteq> []" by auto
    then show ?thesis unfolding res env_report_status by simp
  qed
  from all_set absent empty show ?thesis by blast
qed

text \<open>The branches of the loop, read off the lines of the file.\<close>

lemma find_first_split:
  "find_first P (before @ x # after) = Some x" if "P x" "\<forall>p \<in> set before. \<not> P p"
  using that unfolding find_first_def by (induction before) auto

lemma find_first_Some_split:
  "find_first P xs = Some x \<Longrightarrow>
   \<exists>before after. xs = before @ x # after \<and> P x \<and> (\<forall>p \<in> set before. \<not> P p)"
  unfolding find_first_def
proof (induction xs)
  case Nil
  then show ?case by simp
next
  case (Cons y ys)
  show ?case
  proof (cases "P y")
    case True
    with Cons.prems have "y = x" by simp
    with True have "y # ys = [] @ x # ys \<and> P x \<and> (\<forall>p \<in> set []. \<not> P p)" by simp
    then show ?thesis by blast
  next
    case False
    with Cons.prems have "List.find P ys = Some x" by simp
    from Cons.IH [OF this] obtain before after
      where "ys = before @ x # after" "P x" "\<forall>p \<in> set before. \<not> P p" by blast
    with False have "y # ys = (y # before) @ x # after \<and> P x \<and> (\<forall>p \<in> set (y # before). \<not> P p)"
      by simp
    then show ?thesis by blast
  qed
qed

lemma var_line_first_mention: "var_line lines k = Some l \<longleftrightarrow> first_mention lines k l"
proof
  assume "var_line lines k = Some l"
  then have "\<exists>before after. lines = before @ l # after
               \<and> (startsWith l (k @ u ''='') \<or> startsWith l (k @ u '' ''))
               \<and> (\<forall>p \<in> set before. \<not> (startsWith p (k @ u ''='') \<or> startsWith p (k @ u '' '')))"
    unfolding var_line_def by (rule find_first_Some_split)
  then show "first_mention lines k l"
    unfolding first_mention_def mentions_def .
next
  assume "first_mention lines k l"
  then obtain before after where "lines = before @ l # after" "mentions l k"
    "\<forall>p \<in> set before. \<not> mentions p k"
    unfolding first_mention_def by blast
  then show "var_line lines k = Some l"
    unfolding var_line_def mentions_def by (simp add: find_first_split)
qed

lemma var_line_unmentioned: "var_line lines k = None \<longleftrightarrow> (\<forall>l \<in> set lines. \<not> mentions l k)"
  unfolding var_line_def mentions_def find_first_none by simp

lemma split_chr_nonempty: "split_chr c s \<noteq> []"
  by (induction s) (auto split: list.splits)

lemma split_chr_head: "hd (split_chr c s) = takeWhile (\<lambda>x. x \<noteq> c) s"
  by (induction s) (auto split: list.splits simp: split_chr_nonempty)

lemma split_chr_second:
  "c \<in> set s \<Longrightarrow>
   nth_opt (split_chr c s) 1 = Some (takeWhile (\<lambda>x. x \<noteq> c) (drop 1 (dropWhile (\<lambda>x. x \<noteq> c) s)))"
proof (induction s)
  case Nil
  then show ?case by simp
next
  case (Cons x t)
  show ?case
  proof (cases "x = c")
    case True
    have "split_chr c t \<noteq> []" by (rule split_chr_nonempty)
    then have "nth_opt ([] # split_chr c t) 1 = Some (hd (split_chr c t))"
      by (cases "split_chr c t") (simp_all add: nth_opt_def)
    with True show ?thesis by (simp add: split_chr_head)
  next
    case False
    with Cons.prems have "c \<in> set t" by simp
    from Cons.IH [OF this] obtain p ps where sp: "split_chr c t = p # ps"
      and second: "nth_opt (p # ps) 1 = Some (takeWhile (\<lambda>x. x \<noteq> c) (drop 1 (dropWhile (\<lambda>x. x \<noteq> c) t)))"
      using split_chr_nonempty [of c t] by (cases "split_chr c t") auto
    from second have "nth_opt ((x # p) # ps) 1
                        = Some (takeWhile (\<lambda>x. x \<noteq> c) (drop 1 (dropWhile (\<lambda>x. x \<noteq> c) t)))"
      by (simp add: nth_opt_def split: if_splits)
    with False sp show ?thesis by simp
  qed
qed

lemma split_chr_no_second: "c \<notin> set s \<Longrightarrow> nth_opt (split_chr c s) 1 = None"
  by (simp add: split_chr_without nth_opt_def)

lemma classify_by_text:
  "classify lines k =
     (if \<forall>l \<in> set lines. \<not> mentions l k then Inr IsMissing
      else (let l = the (var_line lines k)
            in if 61 \<notin> set l then Inl undefined_trim
               else if trim (value_text l) = [] then Inr IsEmpty
               else Inr IsDefined))"
proof (cases "var_line lines k")
  case None
  then show ?thesis
    using var_line_unmentioned [of lines k] by (simp add: classify_def)
next
  case (Some l)
  then have "\<not> (\<forall>l \<in> set lines. \<not> mentions l k)"
    using var_line_unmentioned [of lines k] by simp
  then show ?thesis
    using Some split_chr_second [of 61 l] split_chr_no_second [of 61 l]
    by (cases "61 \<in> set l") (simp_all add: classify_def value_text_def Let_def)
qed

lemma classify_missing:
  "\<forall>l \<in> set lines. \<not> mentions l k \<Longrightarrow> classify lines k = Inr IsMissing"
  by (simp add: classify_by_text)

lemma classify_first_mention:
  assumes "first_mention lines k l"
  shows "classify lines k =
           (if 61 \<notin> set l then Inl undefined_trim
            else if trim (value_text l) = [] then Inr IsEmpty
            else Inr IsDefined)"
proof -
  from assms have found: "var_line lines k = Some l" by (simp add: var_line_first_mention)
  then have "\<not> (\<forall>l \<in> set lines. \<not> mentions l k)"
    using var_line_unmentioned [of lines k] by simp
  with found show ?thesis by (simp add: classify_by_text)
qed

lemma value_text_needs_equals: "61 \<notin> set l \<Longrightarrow> value_text l = []"
proof -
  assume "61 \<notin> set l"
  then have "dropWhile (\<lambda>c. c \<noteq> 61) l = []" by (auto simp: dropWhile_eq_Nil_conv)
  then have "value_text l = takeWhile (\<lambda>c. c \<noteq> 61) (drop 1 [])"
    unfolding value_text_def by (simp only:)
  then show ?thesis by simp
qed

lemma well_formed_by_text:
  assumes "\<forall>k \<in> set ks. \<forall>l. first_mention lines k l \<longrightarrow> 61 \<in> set l"
  shows "\<forall>k \<in> set ks. classify lines k \<noteq> Inl undefined_trim"
proof
  fix k assume k: "k \<in> set ks"
  show "classify lines k \<noteq> Inl undefined_trim"
  proof (cases "var_line lines k")
    case None
    then show ?thesis by (simp add: classify_def)
  next
    case (Some l)
    then have fm: "first_mention lines k l" by (simp add: var_line_first_mention)
    with assms k have "61 \<in> set l" by blast
    with classify_first_mention [OF fm] show ?thesis by simp
  qed
qed

lemma first_mention_in_lines: "first_mention lines k l \<Longrightarrow> l \<in> set lines"
  unfolding first_mention_def by auto

lemma first_mention_unique:
  "first_mention lines k l \<Longrightarrow> first_mention lines k l' \<Longrightarrow> l' = l"
  unfolding var_line_first_mention [symmetric] by simp

text \<open>
  C5, as the code has it, for a settings file that can be read. The line of a variable is
  the first line that begins with its name followed by \<open>=\<close> or by a space, and its value
  is the text between the first \<open>=\<close> of that line and the next \<open>=\<close> or the end of the
  line. If every required variable has a line whose value is not blank, the status is pass
  when every optional variable is mentioned by some line, and warning otherwise. When the
  line of every required variable that has one contains \<open>=\<close>: if no line mentions a
  required variable, the status is fail and a detail of status fail that starts with
  \<open>Missing: \<close> contains its name; if the value on the line of a required variable is
  blank, the status is fail.
\<close>

theorem checkEnvFile_status_by_lines:
  "((\<forall>k \<in> set REQUIRED_ENV_VARS.
       \<exists>l. first_mention (split_chr 10 content) k l \<and> trim (value_text l) \<noteq> [])
     \<longrightarrow> p_status (checkEnvFile envPath (Content content)) =
           Some (if \<forall>k \<in> set OPTIONAL_ENV_VARS. \<exists>l \<in> set (split_chr 10 content). mentions l k
                 then u ''pass'' else u ''warning''))
   \<and> ((\<forall>k \<in> set REQUIRED_ENV_VARS. \<forall>l. first_mention (split_chr 10 content) k l \<longrightarrow> 61 \<in> set l)
     \<longrightarrow> (\<forall>k \<in> set REQUIRED_ENV_VARS.
            (\<forall>l \<in> set (split_chr 10 content). \<not> mentions l k)
            \<longrightarrow> p_status (checkEnvFile envPath (Content content)) = Some (u ''fail'')
                \<and> (\<exists>d \<in> set (the (p_details (checkEnvFile envPath (Content content)))).
                      d_status d = u ''fail''
                      \<and> startsWith (d_message d) (u ''Missing: '')
                      \<and> includes_str (d_message d) k))
         \<and> (\<forall>k \<in> set REQUIRED_ENV_VARS. \<forall>l.
              first_mention (split_chr 10 content) k l \<and> trim (value_text l) = []
              \<longrightarrow> p_status (checkEnvFile envPath (Content content)) = Some (u ''fail'')))"
proof -
  let ?lines = "split_chr 10 content"
  let ?res = "checkEnvFile envPath (Content content)"
  have all_set: "p_status ?res =
           Some (if \<forall>k \<in> set OPTIONAL_ENV_VARS. \<exists>l \<in> set ?lines. mentions l k
                 then u ''pass'' else u ''warning'')"
    if valued: "\<forall>k \<in> set REQUIRED_ENV_VARS. \<exists>l. first_mention ?lines k l \<and> trim (value_text l) \<noteq> []"
  proof -
    have defined: "classify ?lines k = Inr IsDefined" if "k \<in> set REQUIRED_ENV_VARS" for k
    proof -
      from valued that obtain l where fm: "first_mention ?lines k l"
        and nonblank: "trim (value_text l) \<noteq> []" by blast
      have "61 \<in> set l"
      proof (rule ccontr)
        assume "61 \<notin> set l"
        then have "value_text l = []" by (rule value_text_needs_equals)
        with nonblank show False by (simp add: trim_def)
      qed
      with nonblank classify_first_mention [OF fm] show ?thesis by simp
    qed
    then have wf: "\<forall>k \<in> set REQUIRED_ENV_VARS. classify ?lines k \<noteq> Inl undefined_trim"
      by simp
    have opt: "(\<forall>v \<in> set OPTIONAL_ENV_VARS. var_line ?lines v \<noteq> None)
               \<longleftrightarrow> (\<forall>k \<in> set OPTIONAL_ENV_VARS. \<exists>l \<in> set ?lines. mentions l k)"
      by (simp add: var_line_unmentioned)
    from checkEnvFile_status_by_states [OF wf, of envPath] defined
    show ?thesis unfolding opt [symmetric] by blast
  qed
  have rest: "(\<forall>k \<in> set REQUIRED_ENV_VARS.
            (\<forall>l \<in> set ?lines. \<not> mentions l k)
            \<longrightarrow> p_status ?res = Some (u ''fail'')
                \<and> (\<exists>d \<in> set (the (p_details ?res)).
                      d_status d = u ''fail''
                      \<and> startsWith (d_message d) (u ''Missing: '')
                      \<and> includes_str (d_message d) k))
         \<and> (\<forall>k \<in> set REQUIRED_ENV_VARS. \<forall>l.
              first_mention ?lines k l \<and> trim (value_text l) = []
              \<longrightarrow> p_status ?res = Some (u ''fail''))"
    if eqs: "\<forall>k \<in> set REQUIRED_ENV_VARS. \<forall>l. first_mention ?lines k l \<longrightarrow> 61 \<in> set l"
  proof -
    from well_formed_by_text [OF eqs]
    have wf: "\<forall>k \<in> set REQUIRED_ENV_VARS. classify ?lines k \<noteq> Inl undefined_trim" .
    note by_states = checkEnvFile_status_by_states [OF wf, of envPath]
    have absent: "p_status ?res = Some (u ''fail'')
                \<and> (\<exists>d \<in> set (the (p_details ?res)).
                      d_status d = u ''fail''
                      \<and> startsWith (d_message d) (u ''Missing: '')
                      \<and> includes_str (d_message d) k)"
      if "k \<in> set REQUIRED_ENV_VARS" "\<forall>l \<in> set ?lines. \<not> mentions l k" for k
      using by_states that(1) classify_missing [OF that(2)] by blast
    have empty: "p_status ?res = Some (u ''fail'')"
      if "k \<in> set REQUIRED_ENV_VARS" "first_mention ?lines k l" "trim (value_text l) = []" for k l
    proof -
      from eqs that(1,2) have "61 \<in> set l" by blast
      with classify_first_mention [OF that(2)] that(3)
      have "classify ?lines k = Inr IsEmpty" by simp
      with by_states that(1) show ?thesis by blast
    qed
    from absent empty show ?thesis by blast
  qed
  from all_set rest show ?thesis by blast
qed

theorem checkEnvFile_status_by_lines_witness:
  "split_chr 10 env_all_keys =
     [u ''NOTION_API_KEY=k1'',
      u ''NOTION_DISCUSSION_DATABASE_ID=d1'',
      u ''NOTION_DAILY_REPORT_DATABASE_ID=d2'',
      u ''TELEGRAM_BOT_TOKEN=t1'',
      u ''TELEGRAM_DISCUSSION_GROUP_ID=g1'',
      u ''TELEGRAM_DAILY_REPORT_GROUP_ID=g2'',
      u ''TELEGRAM_GENERAL_GROUP_ID=g3'',
      u ''NOTION_MEETING_DATABASE_ID=d3'']
   \<and> p_status (checkEnvFile (u ''/bot/.env'') (Content env_all_keys)) = Some (u ''pass'')
   \<and> split_chr 10 env_key_absent =
     [u ''NOTION_DISCUSSION_DATABASE_ID='',
      u ''NOTION_DAILY_REPORT_DATABASE_ID=d2'',
      u ''TELEGRAM_BOT_TOKEN=t1'',
      u ''TELEGRAM_DISCUSSION_GROUP_ID=g1'',
      u ''TELEGRAM_DAILY_REPORT_GROUP_ID=g2'']
   \<and> first_mention (split_chr 10 env_key_absent) (u ''NOTION_DISCUSSION_DATABASE_ID'')
         (u ''NOTION_DISCUSSION_DATABASE_ID='')
   \<and> trim (value_text (u ''NOTION_DISCUSSION_DATABASE_ID='')) = []
   \<and> p_status (checkEnvFile (u ''/bot/.env'') (Content env_key_absent)) = Some (u ''fail'')"
proof -
  let ?full = "split_chr 10 env_all_keys"
  let ?lines = "split_chr 10 env_key_absent"
  have full: "?full =
     [u ''NOTION_API_KEY=k1'',
      u ''NOTION_DISCUSSION_DATABASE_ID=d1'',
      u ''NOTION_DAILY_REPORT_DATABASE_ID=d2'',
      u ''TELEGRAM_BOT_TOKEN=t1'',
      u ''TELEGRAM_DISCUSSION_GROUP_ID=g1'',
      u ''TELEGRAM_DAILY_REPORT_GROUP_ID=g2'',
      u ''TELEGRAM_GENERAL_GROUP_ID=g3'',
      u ''NOTION_MEETING_DATABASE_ID=d3'']"
    by code_simp
  have found: "\<forall>k \<in> set REQUIRED_ENV_VARS.
                 (case var_line ?full k of None \<Rightarrow> False
                  | Some l \<Rightarrow> trim (value_text l) \<noteq> [])"
    by code_simp
  have valued: "\<forall>k \<in> set REQUIRED_ENV_VARS.
                  \<exists>l. first_mention ?full k l \<and> trim (value_text l) \<noteq> []"
  proof
    fix k assume "k \<in> set REQUIRED_ENV_VARS"
    with found obtain l where "var_line ?full k = Some l" "trim (value_text l) \<noteq> []"
      by (cases "var_line ?full k") auto
    then show "\<exists>l. first_mention ?full k l \<and> trim (value_text l) \<noteq> []"
      using var_line_first_mention by blast
  qed
  have "\<forall>k \<in> set OPTIONAL_ENV_VARS. var_line ?full k \<noteq> None"
    by code_simp
  then have optional: "\<forall>k \<in> set OPTIONAL_ENV_VARS. \<exists>l \<in> set ?full. mentions l k"
    by (simp add: var_line_unmentioned)
  from checkEnvFile_status_by_lines [of env_all_keys "u ''/bot/.env''"] valued optional
  have pass: "p_status (checkEnvFile (u ''/bot/.env'') (Content env_all_keys)) = Some (u ''pass'')"
    by simp
  have lines: "?lines =
     [u ''NOTION_DISCUSSION_DATABASE_ID='',
      u ''NOTION_DAILY_REPORT_DATABASE_ID=d2'',
      u ''TELEGRAM_BOT_TOKEN=t1'',
      u ''TELEGRAM_DISCUSSION_GROUP_ID=g1'',
      u ''TELEGRAM_DAILY_REPORT_GROUP_ID=g2'']"
    by code_simp
  have all_eq: "\<forall>l \<in> set ?lines. 61 \<in> set l"
    by code_simp
  have eqs: "\<forall>k \<in> set REQUIRED_ENV_VARS. \<forall>l. first_mention ?lines k l \<longrightarrow> 61 \<in> set l"
    using all_eq first_mention_in_lines by blast
  have req: "u ''NOTION_API_KEY'' \<in> set REQUIRED_ENV_VARS"
    by (simp add: REQUIRED_ENV_VARS_def)
  have "var_line ?lines (u ''NOTION_API_KEY'') = None"
    by code_simp
  then have absent: "\<forall>l \<in> set ?lines. \<not> mentions l (u ''NOTION_API_KEY'')"
    by (simp add: var_line_unmentioned)
  have "var_line ?lines (u ''NOTION_DISCUSSION_DATABASE_ID'')
          = Some (u ''NOTION_DISCUSSION_DATABASE_ID='')"
    by code_simp
  then have empty: "first_mention ?lines (u ''NOTION_DISCUSSION_DATABASE_ID'')
                      (u ''NOTION_DISCUSSION_DATABASE_ID='')"
    by (simp add: var_line_first_mention)
  have blank: "trim (value_text (u ''NOTION_DISCUSSION_DATABASE_ID='')) = []"
    by code_simp
  from checkEnvFile_status_by_lines [of env_key_absent "u ''/bot/.env''"] eqs req absent
  have "p_status (checkEnvFile (u ''/bot/.env'') (Content env_key_absent)) = Some (u ''fail'')"
    by blast
  with full pass lines empty blank show ?thesis by simp
qed

text \<open>
  C5 as stated fails: with the six required variables set and no optional variable in the
  file, the status is warning, not pass.
\<close>

theorem required_keys_set_gives_warning:
  "split_chr 10 env_required_only =
     [u ''NOTION_API_KEY=k1'',
      u ''NOTION_DISCUSSION_DATABASE_ID=d1'',
      u ''NOTION_DAILY_REPORT_DATABASE_ID=d2'',
      u ''TELEGRAM_BOT_TOKEN=t1'',
      u ''TELEGRAM_DISCUSSION_GROUP_ID=g1'',
      u ''TELEGRAM_DAILY_REPORT_GROUP_ID=g2'']
   \<and> classify (split_chr 10 env_required_only) (u ''NOTION_API_KEY'') = Inr IsDefined
   \<and> classify (split_chr 10 env_required_only) (u ''NOTION_DISCUSSION_DATABASE_ID'') = Inr IsDefined
   \<and> classify (split_chr 10 env_required_only) (u ''NOTION_DAILY_REPORT_DATABASE_ID'') = Inr IsDefined
   \<and> classify (split_chr 10 env_required_only) (u ''TELEGRAM_BOT_TOKEN'') = Inr IsDefined
   \<and> classify (split_chr 10 env_required_only) (u ''TELEGRAM_DISCUSSION_GROUP_ID'') = Inr IsDefined
   \<and> classify (split_chr 10 env_required_only) (u ''TELEGRAM_DAILY_REPORT_GROUP_ID'') = Inr IsDefined
   \<and> p_status (checkEnvFile (u ''/bot/.env'') (Content env_required_only)) = Some (u ''warning'')
   \<and> p_status (checkEnvFile (u ''/bot/.env'') (Content env_required_only)) \<noteq> Some (u ''pass'')"
  by code_simp

text \<open>
  C10, as the code has it. If the line that \<open>find\<close> returns for a required variable (the
  first line of the file that starts with the name and \<open>=\<close> or a space) contains no
  \<open>=\<close>, that line starts with the name and a space, the variable is neither missing,
  empty nor defined, since \<open>trim\<close> is called on \<open>undefined\<close>, and \<open>checkEnvFile\<close> returns
  status error with the message \<open>Failed to read .env file\<close>.
\<close>

theorem checkEnvFile_line_without_equals:
  assumes req: "v \<in> set REQUIRED_ENV_VARS"
    and found: "var_line (split_chr 10 content) v = Some line"
    and no_eq: "61 \<notin> set line"
  shows "line \<in> set (split_chr 10 content)
         \<and> startsWith line (v @ u '' '')
         \<and> classify (split_chr 10 content) v = Inl undefined_trim
         \<and> checkEnvFile envPath (Content content) =
             \<lparr>p_status = Some (u ''error''),
              p_message = Some (u ''Failed to read .env file''),
              p_details = None,
              p_error = Some (e_message undefined_trim),
              p_fix = None\<rparr>"
proof -
  let ?lines = "split_chr 10 content"
  from found have hit: "startsWith line (v @ u ''='') \<or> startsWith line (v @ u '' '')"
    and mem: "line \<in> set ?lines"
    unfolding var_line_def by (auto dest: find_first_holds)
  have "\<not> startsWith line (v @ u ''='')"
    using startsWith_member [of line v 61] no_eq by (auto simp: u_def)
  with hit have space: "startsWith line (v @ u '' '')" by simp
  have "nth_opt (split_chr 61 line) 1 = None"
    using split_chr_without [OF no_eq] by (simp add: nth_opt_def)
  with found have thrown: "classify ?lines v = Inl undefined_trim"
    by (simp add: classify_def)
  have "check_required ?lines REQUIRED_ENV_VARS
          \<lparr>definedVars = [], emptyVars = [], missingVars = [], issues = [], fixes' = []\<rparr>
        = Inl undefined_trim"
    by (rule check_required_throws [OF req thrown])
  then have "checkEnvFile envPath (Content content) = read_failure undefined_trim"
    by (simp add: checkEnvFile_def Let_def)
  with mem space thrown show ?thesis by (simp add: read_failure_def)
qed

theorem checkEnvFile_line_without_equals_witness:
  "var_line (split_chr 10 env_space_line) (u ''TELEGRAM_BOT_TOKEN'') = Some (u ''TELEGRAM_BOT_TOKEN t1'')
   \<and> p_status (checkEnvFile (u ''/bot/.env'') (Content env_space_line)) = Some (u ''error'')
   \<and> p_message (checkEnvFile (u ''/bot/.env'') (Content env_space_line))
       = Some (u ''Failed to read .env file'')"
proof -
  have req: "u ''TELEGRAM_BOT_TOKEN'' \<in> set REQUIRED_ENV_VARS"
    by (simp add: REQUIRED_ENV_VARS_def)
  have found: "var_line (split_chr 10 env_space_line) (u ''TELEGRAM_BOT_TOKEN'')
                 = Some (u ''TELEGRAM_BOT_TOKEN t1'')"
    by code_simp
  have no_eq: "61 \<notin> set (u ''TELEGRAM_BOT_TOKEN t1'')"
    by code_simp
  from checkEnvFile_line_without_equals [OF req found no_eq, of "u ''/bot/.env''"] found
  show ?thesis by simp
qed

text \<open>
  C10 as stated fails: a line with the name and a space that comes after an assignment of
  the same variable is never looked at, and the file is checked as usual.
\<close>

theorem space_line_after_assignment_is_ignored:
  "u ''NOTION_API_KEY k2'' \<in> set (split_chr 10 env_repeated_key)
   \<and> u ''NOTION_API_KEY'' \<in> set REQUIRED_ENV_VARS
   \<and> startsWith (u ''NOTION_API_KEY k2'') (u ''NOTION_API_KEY'' @ u '' '')
   \<and> 61 \<notin> set (u ''NOTION_API_KEY k2'')
   \<and> classify (split_chr 10 env_repeated_key) (u ''NOTION_API_KEY'') = Inr IsDefined
   \<and> p_status (checkEnvFile (u ''/bot/.env'') (Content env_repeated_key)) = Some (u ''warning'')
   \<and> p_status (checkEnvFile (u ''/bot/.env'') (Content env_repeated_key)) \<noteq> Some (u ''error'')"
  by code_simp

section \<open>The syntax check (checks/syntax.js)\<close>

definition CRITICAL_FILES :: "jstring list" where
  "CRITICAL_FILES =
     [u ''scripts/notion-heartbeat.js'',
      u ''skills/notion-persistence-universal/scripts/save-content.js'',
      u ''skills/telegram-notification/scripts/notify-group.js'',
      u ''skills/event-coordinator/scripts/coordinate.js'']"

text \<open>
  An identifier of a module is bound to a value or not declared at all; reading one that is
  not declared throws a \<open>ReferenceError\<close> (the message is the one of V8).
  syntax.js requires \<open>fs\<close>, \<open>path\<close> and \<open>existsSync\<close> and never \<open>child_process\<close>, so
  the \<open>spawn\<close> that \<open>checkFileSyntax\<close> calls is not declared in it, while git.js and
  notifier.js declare theirs.
\<close>

definition not_defined :: "jstring \<Rightarrow> js_error" where
  "not_defined ident = JsError (u ''ReferenceError'') (ident @ u '' is not defined'')"

definition syntax_spawn :: "spawner option" where
  "syntax_spawn = None"

record syntax_result =
  sx_status :: jstring
  sx_message :: jstring
  sx_error :: "jstring option"

definition error_location_rx :: regex where
  "error_location_rx =
     rx_seqs [Grp 1 (Seq (rx_plus is_word) (rx_lit (u ''.js''))), rx_chr 58,
              Grp 2 (rx_plus is_digit)]"

definition trailing_number_rx :: regex where
  "trailing_number_rx = rx_seqs [Grp 1 (rx_plus is_digit), Eos]"

text \<open>
  \<open>checkFileSyntax\<close>, with the binding of \<open>spawn\<close> in scope as a parameter. The promise
  is rejected when its executor throws, and resolved by the handlers of close and error.
\<close>

definition checkFileSyntax :: "spawner option \<Rightarrow> jstring \<Rightarrow> js_error + syntax_result" where
  "checkFileSyntax spawn_binding filePath =
     (case spawn_binding of
        None \<Rightarrow> Inl (not_defined (u ''spawn''))
      | Some spawn \<Rightarrow>
          (case spawn [u ''node'', u ''--check'', filePath] of
             Throws err \<Rightarrow> Inl err
           | Exit code stdout stderr \<Rightarrow>
               if code = Some 0
               then Inr \<lparr>sx_status = u ''pass'', sx_message = basename filePath,
                         sx_error = None\<rparr>
               else
                 (let location =
                        (case rx_match stderr error_location_rx of
                           Some m \<Rightarrow> cat [tpl (rx_group m 1), u '':'', tpl (rx_group m 2)]
                         | None \<Rightarrow> filePath);
                      line =
                        (case find_first (\<lambda>l. includes_str l (u ''Error''))
                                (split_chr 10 stderr) of
                           None \<Rightarrow> u ''Syntax error''
                         | Some l \<Rightarrow> if trim l = [] then u ''Syntax error'' else trim l)
                  in Inr \<lparr>sx_status = u ''fail'',
                           sx_message = cat [location, u '': '', line],
                           sx_error = Some (trim stderr)\<rparr>)
           | ErrorEvent err \<Rightarrow>
               Inr \<lparr>sx_status = u ''error'',
                    sx_message = cat [u ''Failed to check '', filePath, u '': '', e_message err],
                    sx_error = None\<rparr>))"

text \<open>
  What \<open>run\<close> of syntax.js sees of the machine: \<open>existsSync\<close>, and what requiring
  \<open>glob\<close> and awaiting its call gives (the paths, or an exception).
\<close>

record syntax_env =
  existsSync :: "jstring \<Rightarrow> bool"
  glob_scripts :: "js_error + jstring list"

record syntax_state =
  sx_details :: "detail list"
  sx_errors :: "jstring list"
  sx_fixes :: "jstring list"
  sx_checked :: nat
  sx_passed :: nat
  sx_failed :: nat

text \<open>The loop over the critical files: an exception of \<open>checkFileSyntax\<close> leaves it.\<close>

fun check_critical ::
  "spawner option \<Rightarrow> syntax_env \<Rightarrow> jstring \<Rightarrow> jstring list \<Rightarrow> syntax_state
   \<Rightarrow> js_error + syntax_state" where
  "check_critical sp env clawdRoot' [] st = Inr st"
| "check_critical sp env clawdRoot' (relativePath # rest) st =
     (let fullPath = path_join [clawdRoot', relativePath]
      in if \<not> existsSync env fullPath
         then check_critical sp env clawdRoot' rest
                (st\<lparr>sx_details := sx_details st @
                       [\<lparr>d_status = u ''warning'',
                         d_message = relativePath @ u '' not found''\<rparr>]\<rparr>)
         else
           (case checkFileSyntax sp fullPath of
              Inl err \<Rightarrow> Inl err
            | Inr result \<Rightarrow>
                if sx_status result = u ''pass''
                then check_critical sp env clawdRoot' rest
                       (st\<lparr>sx_checked := sx_checked st + 1,
                           sx_passed := sx_passed st + 1,
                           sx_details := sx_details st @
                             [\<lparr>d_status = u ''pass'',
                               d_message = relativePath @ u '': OK''\<rparr>]\<rparr>)
                else check_critical sp env clawdRoot' rest
                       (st\<lparr>sx_checked := sx_checked st + 1,
                           sx_failed := sx_failed st + 1,
                           sx_details := sx_details st @
                             [\<lparr>d_status = u ''fail'', d_message = sx_message result\<rparr>],
                           sx_errors := sx_errors st @ [sx_message result],
                           sx_fixes := sx_fixes st
                             @ [u ''Fix syntax error in '' @ relativePath]
                             @ (if truthy (sx_error result)
                                then (case rx_match (tpl (sx_error result)) trailing_number_rx of
                                        Some m \<Rightarrow> [cat [u ''Check line '', tpl (rx_group m 1),
                                                        u '' in '', relativePath]]
                                      | None \<Rightarrow> [])
                                else [])\<rparr>)))"

text \<open>
  The loop over the other scripts, inside a \<open>try\<close> whose \<open>catch\<close> is empty: an exception
  ends the loop and keeps what was counted so far.
\<close>

fun check_additional :: "spawner option \<Rightarrow> jstring list \<Rightarrow> syntax_state \<Rightarrow> syntax_state" where
  "check_additional sp [] st = st"
| "check_additional sp (file # rest) st =
     (case checkFileSyntax sp file of
        Inl err \<Rightarrow> st
      | Inr result \<Rightarrow>
          if sx_status result = u ''pass''
          then check_additional sp rest
                 (st\<lparr>sx_checked := sx_checked st + 1, sx_passed := sx_passed st + 1\<rparr>)
          else check_additional sp rest
                 (st\<lparr>sx_checked := sx_checked st + 1,
                     sx_failed := sx_failed st + 1,
                     sx_details := sx_details st @
                       [\<lparr>d_status = u ''fail'', d_message = sx_message result\<rparr>],
                     sx_errors := sx_errors st @ [sx_message result]\<rparr>))"

text \<open>\<open>run\<close> of syntax.js, for a binding of \<open>spawn\<close>; the module has \<open>syntax_spawn\<close>.\<close>

definition syntax_run_with ::
  "spawner option \<Rightarrow> syntax_env \<Rightarrow> jstring \<Rightarrow> js_error + partial_result" where
  "syntax_run_with sp env clawdRoot' =
     (case check_critical sp env clawdRoot' CRITICAL_FILES
             \<lparr>sx_details = [], sx_errors = [], sx_fixes = [], sx_checked = 0, sx_passed = 0,
              sx_failed = 0\<rparr> of
        Inl err \<Rightarrow> Inl err
      | Inr st1 \<Rightarrow>
          (let st =
                 (case glob_scripts env of
                    Inl globError \<Rightarrow> st1
                  | Inr allJsFiles \<Rightarrow>
                      check_additional sp
                        (take 20 (filter (\<lambda>file. \<not> (\<exists>critical \<in> set CRITICAL_FILES.
                                                        endsWith file critical))
                                    allJsFiles))
                        st1);
               status =
                 (if sx_failed st > 0 then u ''fail''
                  else if sx_checked st = 0 then u ''warning''
                  else u ''pass'')
           in Inr \<lparr>p_status = Some status,
                    p_message = Some (cat [u ''Syntax check: '', show_nat (sx_passed st), u ''/'',
                                           show_nat (sx_checked st), u '' files passed'']),
                    p_details = Some (sx_details st),
                    p_error = (if length (sx_errors st) > 0
                               then Some (join (u ''; '') (sx_errors st)) else None),
                    p_fix = Some (sx_fixes st)\<rparr>))"

definition syntax_run :: "syntax_env \<Rightarrow> jstring \<Rightarrow> js_error + partial_result" where
  "syntax_run env clawdRoot' = syntax_run_with syntax_spawn env clawdRoot'"

text \<open>
  A machine on which the first critical file exists, and a \<open>node --check\<close> that rejects
  whatever it is given.
\<close>

definition heartbeat_only :: syntax_env where
  "heartbeat_only =
     \<lparr>existsSync = (\<lambda>p. p = u ''/bot/scripts/notion-heartbeat.js''),
      glob_scripts = Inr []\<rparr>"

definition node_rejects :: spawner where
  "node_rejects args =
     Exit (Some 1) [] (u ''/bot/scripts/notion-heartbeat.js:3'' @ [10] @ u ''SyntaxError: Unexpected token'')"

section \<open>Properties of the syntax check\<close>

lemma critical_file_present_throws:
  "rel \<in> set files \<Longrightarrow> existsSync env (path_join [root, rel]) \<Longrightarrow>
   check_critical None env root files st = Inl (not_defined (u ''spawn''))"
proof (induction files arbitrary: st)
  case Nil
  then show ?case by simp
next
  case (Cons f fs)
  show ?case
  proof (cases "existsSync env (path_join [root, f])")
    case True
    then show ?thesis by (simp add: checkFileSyntax_def Let_def)
  next
    case False
    with Cons.prems have "rel \<in> set fs" by auto
    from Cons.IH [OF this Cons.prems(2)] False show ?thesis by (simp add: Let_def)
  qed
qed

lemma absent_critical_files_are_skipped:
  "\<forall>rel \<in> set files. \<not> existsSync env (path_join [root, rel]) \<Longrightarrow>
   check_critical sp env root files st =
     Inr (st\<lparr>sx_details := sx_details st @
               map (\<lambda>rel. \<lparr>d_status = u ''warning'', d_message = rel @ u '' not found''\<rparr>) files\<rparr>)"
  by (induction files arbitrary: st) (simp_all add: Let_def)

text \<open>
  C6. The claim asks for status fail when a critical file exists and cannot be parsed. In
  the code the first critical file that exists makes \<open>run\<close> throw the
  \<open>ReferenceError\<close> of \<open>spawn\<close> before any file is parsed, and the runner turns that
  into status error. With \<open>spawn\<close> bound, the same machine gives status fail.
\<close>

theorem syntax_run_unparsable_critical_file:
  "existsSync heartbeat_only (path_join [u ''/bot'', u ''scripts/notion-heartbeat.js''])
   \<and> syntax_run heartbeat_only (u ''/bot'') = Inl (not_defined (u ''spawn''))
   \<and> status (runCheck (u ''Syntax Check'') (syntax_run heartbeat_only (u ''/bot'')) 0 7) = u ''error''
   \<and> status (runCheck (u ''Syntax Check'') (syntax_run heartbeat_only (u ''/bot'')) 0 7) \<noteq> u ''fail''
   \<and> status (runCheck (u ''Syntax Check'')
                (syntax_run_with (Some node_rejects) heartbeat_only (u ''/bot'')) 0 7) = u ''fail''"
proof -
  have ex: "existsSync heartbeat_only (path_join [u ''/bot'', u ''scripts/notion-heartbeat.js''])"
    by code_simp
  have mem: "u ''scripts/notion-heartbeat.js'' \<in> set CRITICAL_FILES"
    by (simp add: CRITICAL_FILES_def)
  have thrown: "syntax_run heartbeat_only (u ''/bot'') = Inl (not_defined (u ''spawn''))"
    using critical_file_present_throws [OF mem ex]
    by (simp add: syntax_run_def syntax_run_with_def syntax_spawn_def)
  have st: "status (runCheck (u ''Syntax Check'') (syntax_run heartbeat_only (u ''/bot'')) 0 7) = u ''error''"
    unfolding thrown by (simp add: runCheck_def)
  have intended: "status (runCheck (u ''Syntax Check'')
                (syntax_run_with (Some node_rejects) heartbeat_only (u ''/bot'')) 0 7) = u ''fail''"
    by code_simp
  from ex thrown st intended status_words_distinct show ?thesis by simp
qed

section \<open>The log analysis (checks/logs.js)\<close>



















record log_file =
  lf_name :: jstring
  lf_path :: jstring
  lf_time :: jstring








section \<open>Properties of the log analysis\<close>






section \<open>The version control check (checks/git.js)\<close>

text \<open>
  What the check sees of the machine: whether the \<open>.git\<close> directory exists, and what
  spawning \<open>git\<close> with given arguments in the root directory leads to.
\<close>

record git_env =
  gitDirExists :: bool
  git :: spawner

definition gitExec :: "git_env \<Rightarrow> jstring list \<Rightarrow> js_error + jstring" where
  "gitExec env args =
     (case git env (u ''git'' # args) of
        Throws err \<Rightarrow> Inl err
      | Exit code stdout stderr \<Rightarrow>
          if code = Some 0 then Inr (trim stdout)
          else Inl (JsError (u ''Error'')
                      (if stderr \<noteq> [] then stderr
                       else cat [u ''git '', join (u '' '') args, u '' failed'']))
      | ErrorEvent err \<Rightarrow> Inl err)"

text \<open>The classes of the secret patterns.\<close>

definition is_token_char :: "nat \<Rightarrow> bool" where
  "is_token_char c \<longleftrightarrow> is_alnum c \<or> c = 95 \<or> c = 45"

definition is_quote :: "nat \<Rightarrow> bool" where
  "is_quote c \<longleftrightarrow> c = 34 \<or> c = 39"

definition is_base64 :: "nat \<Rightarrow> bool" where
  "is_base64 c \<longleftrightarrow> is_alnum c \<or> c = 43 \<or> c = 47"

text \<open>The part \<open>["\']?\s*[:=]\s*["\']?\<close> that three of the patterns share.\<close>

definition assignment_rx :: regex where
  "assignment_rx =
     rx_seqs [rx_opt is_quote, Star is_space, Cls (\<lambda>c. c = 58 \<or> c = 61), Star is_space,
              rx_opt is_quote]"

definition bearer_token_rx :: regex where
  "bearer_token_rx =
     rx_seqs [rx_lit_i (u ''bearer''), rx_plus is_space, rx_rep_min 20 is_token_char]"

definition SECRET_PATTERNS :: "(jstring \<times> regex) list" where
  "SECRET_PATTERNS =
     [(u ''Notion API Token'', rx_seqs [rx_lit (u ''secret_''), rx_rep_min 32 is_alnum]),
      (u ''Telegram Bot Token'',
       rx_seqs [rx_rep_min 8 is_digit, rx_chr 58, rx_rep 35 is_token_char]),
      (u ''API Key'',
       rx_seqs [rx_lit_i (u ''api''), rx_opt (\<lambda>c. c = 95 \<or> c = 45), rx_lit_i (u ''key''),
                assignment_rx, rx_rep_min 20 is_token_char]),
      (u ''Password'',
       rx_seqs [rx_lit_i (u ''password''), assignment_rx,
                rx_plus (\<lambda>c. \<not> is_space c \<and> \<not> is_quote c), rx_opt is_quote]),
      (u ''Token'',
       rx_seqs [rx_lit_i (u ''token''), assignment_rx, rx_rep_min 20 is_token_char]),
      (u ''Bearer Token'', bearer_token_rx),
      (u ''Base64 Secret'',
       rx_seqs [Cls is_quote, rx_rep_min 40 is_base64,
                Alt (Seq (rx_chr 61) (rx_opt (\<lambda>c. c = 61))) Eps, Cls is_quote])]"

definition safePaths :: "jstring list" where
  "safePaths = [u ''.env.example'', u ''sample.env'', u ''.env.template'', u ''test/fixtures'']"

record finding =
  f_type :: jstring
  f_match :: jstring

text \<open>The finding that one pattern adds, and \<open>checkFileForSecrets\<close>.\<close>

definition pattern_finding :: "jstring \<Rightarrow> jstring \<times> regex \<Rightarrow> finding list" where
  "pattern_finding content entry =
     (case entry of (nm, pattern) \<Rightarrow>
        (case rx_match content pattern of
           Some m \<Rightarrow> [\<lparr>f_type = nm, f_match = take 30 (matched m) @ u ''...''\<rparr>]
         | None \<Rightarrow> []))"

definition checkFileForSecrets :: "jstring \<Rightarrow> jstring \<Rightarrow> finding list" where
  "checkFileForSecrets content filePath =
     (let findings = concat (map (pattern_finding content) SECRET_PATTERNS)
      in if \<exists>safe \<in> set safePaths. includes_str filePath safe then [] else findings)"

text \<open>\<open>s.split('\n').filter(Boolean)\<close>.\<close>

definition nonempty_lines :: "jstring \<Rightarrow> jstring list" where
  "nonempty_lines s = filter (\<lambda>l. l \<noteq> []) (split_chr 10 s)"

text \<open>\<open>[...new Set(xs)]\<close>: the first occurrence of each element, in order.\<close>

definition uniq :: "'a list \<Rightarrow> 'a list" where
  "uniq xs = rev (remdups (rev xs))"

definition text_file_rx :: regex where
  "text_file_rx =
     rx_seqs [rx_chr 46,
              Grp 1 (rx_alts [rx_lit (u ''js''), rx_lit (u ''ts''), rx_lit (u ''json''),
                              rx_lit (u ''md''), rx_lit (u ''env''), rx_lit (u ''txt''),
                              rx_lit (u ''yml''), rx_lit (u ''yaml'')]),
              Eos]"

record secret =
  s_commit :: "jstring option"
  s_file :: jstring
  s_type :: jstring
  s_match :: jstring

text \<open>
  \<open>checkUncommittedForSecrets\<close>: a failure of one of the two listings skips the scan, a
  failure of the diff of one file skips that file. \<open>diff_secrets\<close> is the body of its
  loop over the files.
\<close>

definition diff_secrets :: "git_env \<Rightarrow> jstring \<Rightarrow> secret list" where
  "diff_secrets env file =
     (if rx_test text_file_rx file
      then (case gitExec env [u ''diff'', file] of
              Inl err \<Rightarrow> []
            | Inr diff \<Rightarrow>
                map (\<lambda>f. \<lparr>s_commit = None, s_file = file, s_type = f_type f,
                           s_match = f_match f\<rparr>)
                    (checkFileForSecrets diff file))
      else [])"

definition checkUncommittedForSecrets :: "git_env \<Rightarrow> secret list" where
  "checkUncommittedForSecrets env =
     (case gitExec env [u ''diff'', u ''--name-only''] of
        Inl err \<Rightarrow> []
      | Inr changed \<Rightarrow>
          (case gitExec env [u ''diff'', u ''--cached'', u ''--name-only''] of
             Inl err \<Rightarrow> []
           | Inr staged \<Rightarrow>
               (let allChangedFiles = uniq (nonempty_lines changed @ nonempty_lines staged)
                in concat (map (diff_secrets env) allChangedFiles))))"

text \<open>\<open>checkRecentCommitsForSecrets\<close>: the files of the last five commits, as committed.\<close>

definition show_secrets :: "git_env \<Rightarrow> jstring \<Rightarrow> jstring \<Rightarrow> secret list" where
  "show_secrets env commitHash file =
     (if rx_test text_file_rx file
      then (case gitExec env [u ''show'', cat [commitHash, u '':'', file]] of
              Inl err \<Rightarrow> []
            | Inr content \<Rightarrow>
                map (\<lambda>f. \<lparr>s_commit = Some commitHash, s_file = file, s_type = f_type f,
                           s_match = f_match f\<rparr>)
                    (checkFileForSecrets content file))
      else [])"

definition commit_secrets :: "git_env \<Rightarrow> jstring \<Rightarrow> secret list" where
  "commit_secrets env commit =
     (let commitHash = hd (split_chr 32 commit)
      in case gitExec env [u ''diff'', u ''--name-only'',
                           cat [commitHash, u ''^..'', commitHash]] of
           Inl err \<Rightarrow> []
         | Inr files \<Rightarrow> concat (map (show_secrets env commitHash) (nonempty_lines files)))"

definition checkRecentCommitsForSecrets :: "git_env \<Rightarrow> secret list" where
  "checkRecentCommitsForSecrets env =
     (case gitExec env [u ''log'', u ''--oneline'', u ''-5''] of
        Inl err \<Rightarrow> []
      | Inr commits \<Rightarrow> concat (map (commit_secrets env) (nonempty_lines commits)))"

text \<open>
  \<open>run\<close> of git.js, in the order of the source: the details about the working tree, the
  details and the fixes for the secrets found, the detail about the branches, the result.
\<close>

definition working_tree_details :: "git_env \<Rightarrow> detail list" where
  "working_tree_details env =
     (case gitExec env [u ''status'', u ''--porcelain''] of
        Inl err \<Rightarrow>
          [\<lparr>d_status = u ''warning'',
            d_message = u ''Could not check git status: '' @ e_message err\<rparr>]
      | Inr statusOutput \<Rightarrow>
          if statusOutput \<noteq> []
          then
            (let changedFiles = nonempty_lines statusOutput;
                 envFiles = filter (\<lambda>f. includes_str f (u ''.env'')
                                        \<and> \<not> includes_str f (u ''.env.example''))
                              changedFiles
             in [\<lparr>d_status = u ''info'',
                  d_message = show_nat (length changedFiles) @ u '' uncommitted file(s)''\<rparr>]
                @ (if length envFiles > 0
                   then [\<lparr>d_status = u ''warning'',
                          d_message = show_nat (length envFiles)
                                      @ u '' .env file(s) in changes''\<rparr>]
                   else []))
          else [\<lparr>d_status = u ''pass'', d_message = u ''Working directory clean''\<rparr>])"

definition uncommitted_details :: "secret list \<Rightarrow> detail list" where
  "uncommitted_details uncommittedSecrets =
     (if length uncommittedSecrets > 0
      then \<lparr>d_status = u ''fail'',
            d_message = cat [u ''Found '', show_nat (length uncommittedSecrets),
                             u '' potential secret(s) in uncommitted changes'']\<rparr>
           # map (\<lambda>s. \<lparr>d_status = u ''fail'',
                         d_message = cat [u ''  '', s_file s, u '': '', s_type s,
                                          u '' detected'']\<rparr>)
                 (take 5 uncommittedSecrets)
      else [])"

definition uncommitted_fixes :: "secret list \<Rightarrow> jstring list" where
  "uncommitted_fixes uncommittedSecrets =
     (if length uncommittedSecrets > 0
      then [u ''Remove secrets from uncommitted changes before committing'',
            u ''Use environment variables for sensitive data'']
      else [])"

definition commit_details :: "secret list \<Rightarrow> detail list" where
  "commit_details commitSecrets =
     (if length commitSecrets > 0
      then \<lparr>d_status = u ''fail'',
            d_message = cat [u ''Found '', show_nat (length commitSecrets),
                             u '' potential secret(s) in recent commits'']\<rparr>
           # map (\<lambda>s. \<lparr>d_status = u ''fail'',
                         d_message = cat [u ''  Commit '', tpl (s_commit s), u '': '',
                                          s_file s, u '' contains '', s_type s]\<rparr>)
                 (take 3 commitSecrets)
      else [])"

definition commit_fixes :: "secret list \<Rightarrow> jstring list" where
  "commit_fixes commitSecrets =
     (if length commitSecrets > 0
      then [u ''Remove secrets from git history using git-filter-repo or BFG Repo-Cleaner'',
            u ''Rotate exposed secrets immediately'']
      else [])"

definition unpushed_details :: "git_env \<Rightarrow> detail list" where
  "unpushed_details env =
     (case gitExec env [u ''branch'', u ''-vv''] of
        Inl err \<Rightarrow> []
      | Inr branches \<Rightarrow>
          if length (filter (\<lambda>line. includes_str line (u ''*'')
                                    \<and> includes_str line (u ''['')
                                    \<and> \<not> includes_str line (u ''[behind''))
                       (split_chr 10 branches)) > 0
          then [\<lparr>d_status = u ''info'', d_message = u ''Unpushed commits detected''\<rparr>]
          else [])"

definition git_run :: "git_env \<Rightarrow> partial_result" where
  "git_run env =
     (if \<not> gitDirExists env
      then \<lparr>p_status = Some (u ''warning''),
            p_message = Some (u ''Not a git repository''),
            p_details = Some [\<lparr>d_status = u ''warning'',
                               d_message = u ''.git directory not found''\<rparr>],
            p_error = None,
            p_fix = Some [u ''Initialize git repo: git init'']\<rparr>
      else
        (let uncommittedSecrets = checkUncommittedForSecrets env;
             commitSecrets = checkRecentCommitsForSecrets env;
             details =
               [\<lparr>d_status = u ''pass'', d_message = u ''Git repository detected''\<rparr>]
               @ working_tree_details env
               @ uncommitted_details uncommittedSecrets
               @ commit_details commitSecrets
               @ unpushed_details env;
             fixes = uncommitted_fixes uncommittedSecrets @ commit_fixes commitSecrets;
             status =
               (if length uncommittedSecrets > 0 \<or> length commitSecrets > 0 then u ''fail''
                else u ''pass'')
         in \<lparr>p_status = Some status,
             p_message = Some (u ''Git status check completed''),
             p_details = Some details,
             p_error = None,
             p_fix = (if length fixes > 0 then Some fixes else None)\<rparr>))"

text \<open>A working tree with one changed script whose diff adds a bearer token, and no history.\<close>

definition bearer_diff :: jstring where
  "bearer_diff = u ''+auth: Bearer abcdefghij0123456789xyz''"

definition token_in_diff :: git_env where
  "token_in_diff =
     \<lparr>gitDirExists = True,
      git = (\<lambda>args.
        if args = [u ''git'', u ''status'', u ''--porcelain''] then Exit (Some 0) (u '' M app.js'') []
        else if args = [u ''git'', u ''diff'', u ''--name-only''] then Exit (Some 0) (u ''app.js'') []
        else if args = [u ''git'', u ''diff'', u ''app.js''] then Exit (Some 0) bearer_diff []
        else Exit (Some 0) [] [])\<rparr>"

definition clean_tree :: git_env where
  "clean_tree = \<lparr>gitDirExists = True, git = (\<lambda>args. Exit (Some 0) [] [])\<rparr>"

section \<open>Properties of the version control check\<close>

lemma concat_map_nonempty: "x \<in> set xs \<Longrightarrow> f x \<noteq> [] \<Longrightarrow> concat (map f xs) \<noteq> []"
  by auto

lemma secret_pattern_finds:
  assumes pat: "(nm, pattern) \<in> set SECRET_PATTERNS"
    and hit: "rx_test pattern content"
    and unsafe: "\<not> (\<exists>safe \<in> set safePaths. includes_str filePath safe)"
  shows "checkFileForSecrets content filePath \<noteq> []"
proof -
  from hit obtain m where "rx_match content pattern = Some m"
    by (auto simp: rx_test_def)
  then have "pattern_finding content (nm, pattern) \<noteq> []"
    by (simp add: pattern_finding_def)
  with pat have "concat (map (pattern_finding content) SECRET_PATTERNS) \<noteq> []"
    by (rule concat_map_nonempty)
  with unsafe show ?thesis by (simp add: checkFileForSecrets_def Let_def)
qed

lemma set_uniq: "set (uniq xs) = set xs"
  by (simp add: uniq_def)

lemma uncommitted_secret_found:
  assumes changed: "gitExec env [u ''diff'', u ''--name-only''] = Inr changed"
    and staged: "gitExec env [u ''diff'', u ''--cached'', u ''--name-only''] = Inr staged"
    and listed: "file \<in> set (nonempty_lines changed) \<union> set (nonempty_lines staged)"
    and text_like: "rx_test text_file_rx file"
    and diff: "gitExec env [u ''diff'', file] = Inr diff"
    and found: "checkFileForSecrets diff file \<noteq> []"
  shows "checkUncommittedForSecrets env \<noteq> []"
proof -
  have here: "diff_secrets env file \<noteq> []"
    using text_like diff found by (simp add: diff_secrets_def)
  have mem: "file \<in> set (uniq (nonempty_lines changed @ nonempty_lines staged))"
    using listed by (simp add: set_uniq)
  have "concat (map (diff_secrets env) (uniq (nonempty_lines changed @ nonempty_lines staged))) \<noteq> []"
    using mem here by (rule concat_map_nonempty)
  then show ?thesis
    by (simp add: checkUncommittedForSecrets_def changed staged Let_def)
qed

lemma git_run_status:
  "gitDirExists env \<Longrightarrow>
   p_status (git_run env) =
     Some (if checkUncommittedForSecrets env \<noteq> [] \<or> checkRecentCommitsForSecrets env \<noteq> []
           then u ''fail'' else u ''pass'')"
  by (simp add: git_run_def Let_def)

lemma git_run_fix:
  "gitDirExists env \<Longrightarrow>
   p_fix (git_run env) =
     (if checkUncommittedForSecrets env = [] \<and> checkRecentCommitsForSecrets env = [] then None
      else Some (uncommitted_fixes (checkUncommittedForSecrets env)
                 @ commit_fixes (checkRecentCommitsForSecrets env)))"
  by (simp add: git_run_def Let_def uncommitted_fixes_def commit_fixes_def)

lemma git_run_clean_detail:
  "gitDirExists env \<Longrightarrow> gitExec env [u ''status'', u ''--porcelain''] = Inr [] \<Longrightarrow>
   \<lparr>d_status = u ''pass'', d_message = u ''Working directory clean''\<rparr>
     \<in> set (the (p_details (git_run env)))"
  by (simp add: git_run_def Let_def working_tree_details_def)

lemma rotate_in_fixes:
  "u ''Rotate exposed secrets immediately'' \<in> set (uncommitted_fixes us @ commit_fixes cs)
     \<longleftrightarrow> cs \<noteq> []"
proof -
  have "u ''Rotate exposed secrets immediately'' \<notin> set (uncommitted_fixes us)"
    by (simp add: uncommitted_fixes_def u_def)
  moreover have "u ''Rotate exposed secrets immediately'' \<in> set (commit_fixes cs) \<longleftrightarrow> cs \<noteq> []"
    by (simp add: commit_fixes_def)
  ultimately show ?thesis by simp
qed

lemma remove_in_fixes:
  "us \<noteq> [] \<Longrightarrow>
   u ''Remove secrets from uncommitted changes before committing''
     \<in> set (uncommitted_fixes us @ commit_fixes cs)"
  by (simp add: uncommitted_fixes_def)

text \<open>
  C7, as the code has it, in a git repository. If both listings of changed files succeed
  and the diff of a listed text-like file, not on a safe path, contains a match of the
  bearer token pattern, the status is fail and the fix list contains the suggestion to
  remove the secrets from the uncommitted changes. The suggestion to rotate secrets is in
  the fix list exactly when a secret is found in a recent commit. If the output of
  \<open>git status\<close> is empty and no secret is found in the changes or the recent commits,
  the status is pass and a detail of status pass says \<open>Working directory clean\<close>.
\<close>

theorem git_run_bearer_token_and_clean_tree:
  assumes repo: "gitDirExists env"
  shows "(\<forall>changed staged file diff.
            gitExec env [u ''diff'', u ''--name-only''] = Inr changed
            \<and> gitExec env [u ''diff'', u ''--cached'', u ''--name-only''] = Inr staged
            \<and> file \<in> set (nonempty_lines changed) \<union> set (nonempty_lines staged)
            \<and> rx_test text_file_rx file
            \<and> \<not> (\<exists>safe \<in> set safePaths. includes_str file safe)
            \<and> gitExec env [u ''diff'', file] = Inr diff
            \<and> rx_test bearer_token_rx diff
            \<longrightarrow> p_status (git_run env) = Some (u ''fail'')
                \<and> (\<exists>fixes. p_fix (git_run env) = Some fixes
                      \<and> u ''Remove secrets from uncommitted changes before committing'' \<in> set fixes))
         \<and> ((\<exists>fixes. p_fix (git_run env) = Some fixes
                \<and> u ''Rotate exposed secrets immediately'' \<in> set fixes)
              \<longleftrightarrow> checkRecentCommitsForSecrets env \<noteq> [])
         \<and> (gitExec env [u ''status'', u ''--porcelain''] = Inr []
              \<and> checkUncommittedForSecrets env = [] \<and> checkRecentCommitsForSecrets env = []
            \<longrightarrow> p_status (git_run env) = Some (u ''pass'')
                \<and> \<lparr>d_status = u ''pass'', d_message = u ''Working directory clean''\<rparr>
                     \<in> set (the (p_details (git_run env))))"
proof -
  have bearer: "(u ''Bearer Token'', bearer_token_rx) \<in> set SECRET_PATTERNS"
    by (simp add: SECRET_PATTERNS_def)
  have secret: "p_status (git_run env) = Some (u ''fail'')
                \<and> (\<exists>fixes. p_fix (git_run env) = Some fixes
                      \<and> u ''Remove secrets from uncommitted changes before committing'' \<in> set fixes)"
    if "gitExec env [u ''diff'', u ''--name-only''] = Inr changed"
      "gitExec env [u ''diff'', u ''--cached'', u ''--name-only''] = Inr staged"
      "fl \<in> set (nonempty_lines changed) \<union> set (nonempty_lines staged)"
      "rx_test text_file_rx fl"
      "\<not> (\<exists>safe \<in> set safePaths. includes_str fl safe)"
      "gitExec env [u ''diff'', fl] = Inr diff"
      "rx_test bearer_token_rx diff"
    for changed staged fl diff
  proof -
    have "checkFileForSecrets diff fl \<noteq> []"
      by (rule secret_pattern_finds [OF bearer that(7) that(5)])
    then have "checkUncommittedForSecrets env \<noteq> []"
      by (rule uncommitted_secret_found [OF that(1) that(2) that(3) that(4) that(6)])
    then show ?thesis
      using remove_in_fixes [of "checkUncommittedForSecrets env" "checkRecentCommitsForSecrets env"]
      by (simp add: git_run_status [OF repo] git_run_fix [OF repo])
  qed
  have rotate: "(\<exists>fixes. p_fix (git_run env) = Some fixes
                \<and> u ''Rotate exposed secrets immediately'' \<in> set fixes)
              \<longleftrightarrow> checkRecentCommitsForSecrets env \<noteq> []"
  proof (cases "checkUncommittedForSecrets env = [] \<and> checkRecentCommitsForSecrets env = []")
    case True
    then show ?thesis by (simp add: git_run_fix [OF repo])
  next
    case False
    then have "p_fix (git_run env) =
                 Some (uncommitted_fixes (checkUncommittedForSecrets env)
                       @ commit_fixes (checkRecentCommitsForSecrets env))"
      by (simp add: git_run_fix [OF repo])
    then show ?thesis
      using rotate_in_fixes [of "checkUncommittedForSecrets env" "checkRecentCommitsForSecrets env"]
      by simp
  qed
  have clean: "p_status (git_run env) = Some (u ''pass'')
                \<and> \<lparr>d_status = u ''pass'', d_message = u ''Working directory clean''\<rparr>
                     \<in> set (the (p_details (git_run env)))"
    if "gitExec env [u ''status'', u ''--porcelain''] = Inr []"
      "checkUncommittedForSecrets env = []" "checkRecentCommitsForSecrets env = []"
  proof -
    have "p_status (git_run env) = Some (u ''pass'')"
      using that(2,3) by (simp add: git_run_status [OF repo])
    with git_run_clean_detail [OF repo that(1)] show ?thesis by simp
  qed
  show ?thesis
  proof (intro conjI allI impI)
    fix changed staged fl diff
    assume h: "gitExec env [u ''diff'', u ''--name-only''] = Inr changed
            \<and> gitExec env [u ''diff'', u ''--cached'', u ''--name-only''] = Inr staged
            \<and> fl \<in> set (nonempty_lines changed) \<union> set (nonempty_lines staged)
            \<and> rx_test text_file_rx fl
            \<and> \<not> (\<exists>safe \<in> set safePaths. includes_str fl safe)
            \<and> gitExec env [u ''diff'', fl] = Inr diff
            \<and> rx_test bearer_token_rx diff"
    then have hs: "gitExec env [u ''diff'', u ''--name-only''] = Inr changed"
      "gitExec env [u ''diff'', u ''--cached'', u ''--name-only''] = Inr staged"
      "fl \<in> set (nonempty_lines changed) \<union> set (nonempty_lines staged)"
      "rx_test text_file_rx fl"
      "\<not> (\<exists>safe \<in> set safePaths. includes_str fl safe)"
      "gitExec env [u ''diff'', fl] = Inr diff"
      "rx_test bearer_token_rx diff"
      by blast+
    from secret [OF hs]
    show "p_status (git_run env) = Some (u ''fail'')"
      and "\<exists>fixes. p_fix (git_run env) = Some fixes
              \<and> u ''Remove secrets from uncommitted changes before committing'' \<in> set fixes"
      by blast+
  next
    show "(\<exists>fixes. p_fix (git_run env) = Some fixes
                \<and> u ''Rotate exposed secrets immediately'' \<in> set fixes)
              \<longleftrightarrow> checkRecentCommitsForSecrets env \<noteq> []"
      by (rule rotate)
  next
    assume h: "gitExec env [u ''status'', u ''--porcelain''] = Inr []
              \<and> checkUncommittedForSecrets env = [] \<and> checkRecentCommitsForSecrets env = []"
    then have hs: "gitExec env [u ''status'', u ''--porcelain''] = Inr []"
      "checkUncommittedForSecrets env = []" "checkRecentCommitsForSecrets env = []"
      by blast+
    from clean [OF hs]
    show "p_status (git_run env) = Some (u ''pass'')"
      and "\<lparr>d_status = u ''pass'', d_message = u ''Working directory clean''\<rparr>
                     \<in> set (the (p_details (git_run env)))"
      by blast+
  qed
qed

theorem git_run_bearer_token_and_clean_tree_witness:
  "rx_test bearer_token_rx bearer_diff
   \<and> p_status (git_run token_in_diff) = Some (u ''fail'')
   \<and> p_status (git_run clean_tree) = Some (u ''pass'')"
proof -
  have repo: "gitDirExists token_in_diff" by (simp add: token_in_diff_def)
  have changed: "gitExec token_in_diff [u ''diff'', u ''--name-only''] = Inr (u ''app.js'')"
    by code_simp
  have staged: "gitExec token_in_diff [u ''diff'', u ''--cached'', u ''--name-only''] = Inr []"
    by code_simp
  have listed: "u ''app.js'' \<in> set (nonempty_lines (u ''app.js'')) \<union> set (nonempty_lines [])"
    by code_simp
  have text_like: "rx_test text_file_rx (u ''app.js'')" by code_simp
  have unsafe: "\<not> (\<exists>safe \<in> set safePaths. includes_str (u ''app.js'') safe)" by code_simp
  have diff: "gitExec token_in_diff [u ''diff'', u ''app.js''] = Inr bearer_diff" by code_simp
  have hit: "rx_test bearer_token_rx bearer_diff" by code_simp
  from git_run_bearer_token_and_clean_tree [OF repo] changed staged listed text_like unsafe diff hit
  have failing: "p_status (git_run token_in_diff) = Some (u ''fail'')" by blast
  have repo': "gitDirExists clean_tree" by (simp add: clean_tree_def)
  have st: "gitExec clean_tree [u ''status'', u ''--porcelain''] = Inr []" by code_simp
  have no_changes: "checkUncommittedForSecrets clean_tree = []"
    by code_simp
  have no_commits: "checkRecentCommitsForSecrets clean_tree = []"
    by code_simp
  from git_run_bearer_token_and_clean_tree [OF repo'] st no_changes no_commits
  have passing: "p_status (git_run clean_tree) = Some (u ''pass'')" by blast
  from hit failing passing show ?thesis by simp
qed

text \<open>
  C7 as stated fails: a bearer token in the diff of a changed file, with nothing in the
  recent commits, gives status fail and two fixes, neither of which mentions rotation.
\<close>

theorem uncommitted_bearer_token_has_no_rotation_fix:
  "rx_test bearer_token_rx bearer_diff
   \<and> rx_test text_file_rx (u ''app.js'')
   \<and> gitExec token_in_diff [u ''diff'', u ''--name-only''] = Inr (u ''app.js'')
   \<and> gitExec token_in_diff [u ''diff'', u ''app.js''] = Inr bearer_diff
   \<and> p_status (git_run token_in_diff) = Some (u ''fail'')
   \<and> p_fix (git_run token_in_diff) =
       Some [u ''Remove secrets from uncommitted changes before committing'',
             u ''Use environment variables for sensitive data'']
   \<and> u ''Rotate exposed secrets immediately'' \<notin> set (the (p_fix (git_run token_in_diff)))"
  by code_simp

end
